theory Spec2Isabelle
  imports Main "HOL-Library.AList" "HOL-Library.Char_ord" "HOL-Library.List_Lexorder"
begin

section \<open>Python values and exceptions\<close>

text \<open>
  The exceptions that occur in the two source files, by class.  \<open>is_Exception\<close> is
  Python's \<^verbatim>\<open>isinstance(e, Exception)\<close>: \<^verbatim>\<open>KeyboardInterrupt\<close>, \<^verbatim>\<open>SystemExit\<close> and
  \<^verbatim>\<open>GeneratorExit\<close> derive from \<^verbatim>\<open>BaseException\<close> only.  \<open>is_RuntimeError\<close> is
  \<^verbatim>\<open>isinstance(e, RuntimeError)\<close>, which holds of its subclasses as well.
\<close>

datatype py_exception =
  KeyError | IndexError | TypeError | ValueError | AttributeError | OSError
  | RuntimeError | NotImplementedError | RecursionError
  | KeyboardInterrupt | SystemExit | GeneratorExit

fun is_Exception :: "py_exception \<Rightarrow> bool" where
  "is_Exception KeyboardInterrupt = False"
| "is_Exception SystemExit = False"
| "is_Exception GeneratorExit = False"
| "is_Exception _ = True"

fun is_RuntimeError :: "py_exception \<Rightarrow> bool" where
  "is_RuntimeError RuntimeError = True"
| "is_RuntimeError NotImplementedError = True"
| "is_RuntimeError RecursionError = True"
| "is_RuntimeError _ = False"

text \<open>
  A \<^verbatim>\<open>bytes\<close> object is a list of bytes; HOL's \<open>char\<close> is a byte.  Python values: the
  carrier \<open>'f\<close> of \<^verbatim>\<open>float\<close> is left open, since no function below computes with
  floating-point numbers other than through \<open>+\<close>, \<open>-\<close> and the test against zero.  A
  \<^verbatim>\<open>dict\<close> with string keys is an association list in insertion order, its keys distinct;
  \<^verbatim>\<open>d[k] = v\<close> is \<open>AList.update k v d\<close>.
\<close>

type_synonym bytes = "char list"

datatype 'f pyval =
  PyNone
  | PyBool bool
  | PyInt int
  | PyFloat 'f
  | PyStr string
  | PyBytes bytes
  | PyTuple "'f pyval list"
  | PyList "'f pyval list"
  | PyDict "(string \<times> 'f pyval) list"

type_synonym 'f pydict = "(string \<times> 'f pyval) list"

text \<open>\<^verbatim>\<open>isinstance(value, numbers.Number)\<close>: \<^verbatim>\<open>bool\<close> is a subclass of \<^verbatim>\<open>int\<close>.\<close>

fun is_number :: "'f pyval \<Rightarrow> bool" where
  "is_number (PyBool _) = True"
| "is_number (PyInt _) = True"
| "is_number (PyFloat _) = True"
| "is_number _ = False"

section \<open>examples/benchmark/train_linear.py\<close>

text \<open>
  NumPy is not part of the repository: the seven NumPy functions that
  \<^verbatim>\<open>DEFAULT_AGGREGATE_FUNC\<close> reaches are parameters of the model.  Each maps the list of
  gathered values to a value, or raises.
\<close>

record 'f numpy =
  np_mean :: "'f pyval list \<Rightarrow> py_exception + 'f pyval"
  np_median :: "'f pyval list \<Rightarrow> py_exception + 'f pyval"
  np_std :: "'f pyval list \<Rightarrow> py_exception + 'f pyval"
  np_max :: "'f pyval list \<Rightarrow> py_exception + 'f pyval"
  np_argmax :: "'f pyval list \<Rightarrow> py_exception + 'f pyval"
  np_min :: "'f pyval list \<Rightarrow> py_exception + 'f pyval"
  np_argmin :: "'f pyval list \<Rightarrow> py_exception + 'f pyval"

text \<open>\<^verbatim>\<open>def max_and_argmax(val): return np.max(val), np.argmax(val)\<close>\<close>

definition max_and_argmax :: "'f numpy \<Rightarrow> 'f pyval list \<Rightarrow> py_exception + 'f pyval" where
  "max_and_argmax np val =
     (case np_max np val of
        Inl e \<Rightarrow> Inl e
      | Inr m \<Rightarrow> (case np_argmax np val of
                   Inl e \<Rightarrow> Inl e
                 | Inr i \<Rightarrow> Inr (PyTuple [m, i])))"

text \<open>\<^verbatim>\<open>def min_and_argmin(val): return np.min(val), np.argmin(val)\<close>\<close>

definition min_and_argmin :: "'f numpy \<Rightarrow> 'f pyval list \<Rightarrow> py_exception + 'f pyval" where
  "min_and_argmin np val =
     (case np_min np val of
        Inl e \<Rightarrow> Inl e
      | Inr m \<Rightarrow> (case np_argmin np val of
                   Inl e \<Rightarrow> Inl e
                 | Inr i \<Rightarrow> Inr (PyTuple [m, i])))"

definition DEFAULT_AGGREGATE_FUNC ::
  "'f numpy \<Rightarrow> (string \<times> ('f pyval list \<Rightarrow> py_exception + 'f pyval)) list" where
  "DEFAULT_AGGREGATE_FUNC np =
     [(''mean'', np_mean np),
      (''median'', np_median np),
      (''std'', np_std np),
      (''max'', max_and_argmax np),
      (''min'', min_and_argmin np)]"

definition DEFAULT_KEYS_TO_IGNORE :: "string set" where
  "DEFAULT_KEYS_TO_IGNORE =
     {''epoch'', ''_timestamp'', ''_training_iteration'', ''train_batch_size'',
      ''valid_batch_size'', ''lr''}"

text \<open>\<^verbatim>\<open>[result[key] for result in results if key in result]\<close>\<close>

definition gather_key :: "string \<Rightarrow> 'f pydict list \<Rightarrow> 'f pyval list" where
  "gather_key key results = List.map_filter (\<lambda>result. map_of result key) results"

text \<open>
  The inner loop of \<^verbatim>\<open>handle_result\<close>:
  \<^verbatim>\<open>for func_key, func in DEFAULT_AGGREGATE_FUNC.items(): aggregate[func_key] = func(aggregate_key)\<close>,
  with \<open>aggregate\<close> the dictionary built so far.
\<close>

fun apply_funcs ::
  "(string \<times> ('f pyval list \<Rightarrow> py_exception + 'f pyval)) list \<Rightarrow> 'f pyval list \<Rightarrow>
   'f pydict \<Rightarrow> py_exception + 'f pydict" where
  "apply_funcs [] aggregate_key aggregate = Inr aggregate"
| "apply_funcs ((func_key, func) # funcs) aggregate_key aggregate =
     (case func aggregate_key of
        Inl e \<Rightarrow> Inl e
      | Inr r \<Rightarrow> apply_funcs funcs aggregate_key (AList.update func_key r aggregate))"

text \<open>
  The outer loop, \<^verbatim>\<open>for key, value in results_dict[0].items()\<close>, over the items still to
  visit, with \<open>aggregate_results\<close> the dictionary built so far.
\<close>

fun aggregate_items ::
  "'f numpy \<Rightarrow> 'f pydict list \<Rightarrow> 'f pydict \<Rightarrow> 'f pydict \<Rightarrow> py_exception + 'f pydict" where
  "aggregate_items np results [] aggregate_results = Inr aggregate_results"
| "aggregate_items np results ((key, v) # items) aggregate_results =
     (if key \<in> DEFAULT_KEYS_TO_IGNORE then
        aggregate_items np results items (AList.update key v aggregate_results)
      else if is_number v then
        (case apply_funcs (DEFAULT_AGGREGATE_FUNC np) (gather_key key results) [] of
           Inl e \<Rightarrow> Inl e
         | Inr aggregate \<Rightarrow>
             aggregate_items np results items
               (AList.update key (PyDict aggregate) aggregate_results))
      else aggregate_items np results items aggregate_results)"

text \<open>
  \<^verbatim>\<open>final_results\<close> has the two keys \<^verbatim>\<open>"raw"\<close> and \<^verbatim>\<open>"aggregated"\<close>; \<^verbatim>\<open>"raw"\<close> is
  \<^verbatim>\<open>results_dict\<close>, the workers' dictionaries by their index.
\<close>

record 'f final_results =
  raw :: "(nat \<times> 'f pydict) list"
  aggregated :: "'f pydict"

text \<open>
  \<^verbatim>\<open>AggregateLogCallback.handle_result\<close>.  The log file at \<^verbatim>\<open>self._log_path\<close> is the list
  \<^verbatim>\<open>json.load\<close> reads from it (\<open>None\<close> when the file cannot be opened); the function
  returns the list \<^verbatim>\<open>json.dump\<close> writes back.  \<^verbatim>\<open>results_dict[0]\<close> raises \<^verbatim>\<open>KeyError\<close>
  when \<open>results\<close> is empty.
\<close>

definition handle_result ::
  "'f numpy \<Rightarrow> 'f pydict list \<Rightarrow> 'f final_results list option \<Rightarrow>
   py_exception + 'f final_results list" where
  "handle_result np results log_file =
     (let results_dict = enumerate 0 results in
      case map_of results_dict 0 of
        None \<Rightarrow> Inl KeyError
      | Some r0 \<Rightarrow>
          (case aggregate_items np results r0 [] of
             Inl e \<Rightarrow> Inl e
           | Inr aggregate_results \<Rightarrow>
               (let final = \<lparr>raw = results_dict, aggregated = aggregate_results\<rparr> in
                case log_file of
                  None \<Rightarrow> Inl OSError
                | Some loaded_results \<Rightarrow> Inr (loaded_results @ [final]))))"

text \<open>
  NumPy raises on none of the lists that \<^verbatim>\<open>handle_result\<close> gathers for the numeric,
  not ignored keys of the first worker's dictionary \<open>r0\<close>.
\<close>

definition numpy_accepts :: "'f numpy \<Rightarrow> 'f pydict list \<Rightarrow> 'f pydict \<Rightarrow> bool" where
  "numpy_accepts np results r0 =
     (\<forall>(k, v) \<in> set r0. k \<notin> DEFAULT_KEYS_TO_IGNORE \<and> is_number v \<longrightarrow>
        \<not> isl (apply_funcs (DEFAULT_AGGREGATE_FUNC np) (gather_key k results) []))"

text \<open>
  A stand-in for NumPy on the closed examples below, and the results of two workers.
\<close>

definition stub_numpy :: "int numpy" where
  "stub_numpy =
     \<lparr>np_mean = (\<lambda>vs. Inr (PyInt (int (length vs)))),
      np_median = (\<lambda>vs. Inr (PyInt (int (length vs)))),
      np_std = (\<lambda>vs. Inr (PyInt 0)),
      np_max = (\<lambda>vs. case vs of [] \<Rightarrow> Inl ValueError | v # _ \<Rightarrow> Inr v),
      np_argmax = (\<lambda>vs. case vs of [] \<Rightarrow> Inl ValueError | v # _ \<Rightarrow> Inr (PyInt 0)),
      np_min = (\<lambda>vs. case vs of [] \<Rightarrow> Inl ValueError | v # _ \<Rightarrow> Inr v),
      np_argmin = (\<lambda>vs. case vs of [] \<Rightarrow> Inl ValueError | v # _ \<Rightarrow> Inr (PyInt 0))\<rparr>"

definition example_results :: "int pydict list" where
  "example_results =
     [[(''epoch'', PyInt 1), (''loss'', PyInt 4), (''tag'', PyStr ''a'')],
      [(''epoch'', PyInt 1), (''loss'', PyInt 6), (''extra'', PyInt 9)]]"

text \<open>
  A stand-in for NumPy that keeps what it was given: a function raises \<^verbatim>\<open>TypeError\<close> when a
  value in the list is not a number, as NumPy does on a string; \<^verbatim>\<open>np.max\<close>, \<^verbatim>\<open>np.min\<close>,
  \<^verbatim>\<open>np.argmax\<close> and \<^verbatim>\<open>np.argmin\<close> raise \<^verbatim>\<open>ValueError\<close> on the empty list; otherwise
  the result is the name of the function with the list of its arguments.
\<close>

definition symbolic :: "string \<Rightarrow> bool \<Rightarrow> 'f pyval list \<Rightarrow> py_exception + 'f pyval" where
  "symbolic name needs_element vals =
     (if \<not> list_all is_number vals then Inl TypeError
      else if needs_element \<and> vals = [] then Inl ValueError
      else Inr (PyTuple [PyStr name, PyList vals]))"

definition symbolic_numpy :: "int numpy" where
  "symbolic_numpy =
     \<lparr>np_mean = symbolic ''np.mean'' False,
      np_median = symbolic ''np.median'' False,
      np_std = symbolic ''np.std'' False,
      np_max = symbolic ''np.max'' True,
      np_argmax = symbolic ''np.argmax'' True,
      np_min = symbolic ''np.min'' True,
      np_argmin = symbolic ''np.argmin'' True\<rparr>"

text \<open>Two workers that report \<^verbatim>\<open>loss\<close>, the second one as a string.\<close>

definition mixed_results :: "int pydict list" where
  "mixed_results = [[(''loss'', PyFloat 1)], [(''loss'', PyStr ''abc'')]]"

section \<open>ray_sklearn/skorch_approach/callbacks/skorch.py\<close>

subsection \<open>The net and its history\<close>

text \<open>
  skorch's \<^verbatim>\<open>History\<close> is a list of epoch rows; a row holds its own columns and, under
  \<^verbatim>\<open>"batches"\<close>, the list of its batch rows.  \<^verbatim>\<open>history.record(attr, value)\<close> is
  \<^verbatim>\<open>self[-1][attr] = value\<close> and \<^verbatim>\<open>history.record_batch(attr, value)\<close> is
  \<^verbatim>\<open>self[-1]["batches"][-1][attr] = value\<close>; indexing an empty list raises
  \<^verbatim>\<open>IndexError\<close>.
\<close>

record 'f epoch_row =
  cols :: "'f pydict"
  batches :: "'f pydict list"

type_synonym 'f history = "'f epoch_row list"

definition record_batch :: "string \<Rightarrow> 'f pyval \<Rightarrow> 'f history \<Rightarrow> py_exception + 'f history" where
  "record_batch attr v h =
     (if h = [] then Inl IndexError
      else if batches (last h) = [] then Inl IndexError
      else Inr (butlast h @
                [(last h)\<lparr>batches := butlast (batches (last h)) @
                                       [AList.update attr v (last (batches (last h)))]\<rparr>]))"

record 'f net =
  history :: "'f history"
  verbose :: int

subsection \<open>\<^verbatim>\<open>RayTrainCallback\<close>\<close>

text \<open>
  The eight hooks the class adds.  Each body is a docstring only.  A hook is modelled by the
  value it returns together with the callback object and the net after the call.
\<close>

definition on_forward_pass_begin :: "'cb \<Rightarrow> 'n \<Rightarrow> 'x \<Rightarrow> 'kw \<Rightarrow> 'f pyval \<times> 'cb \<times> 'n" where
  "on_forward_pass_begin self net X kwargs = (PyNone, self, net)"

definition on_forward_pass_end :: "'cb \<Rightarrow> 'n \<Rightarrow> 'x \<Rightarrow> 'kw \<Rightarrow> 'f pyval \<times> 'cb \<times> 'n" where
  "on_forward_pass_end self net X kwargs = (PyNone, self, net)"

definition on_backward_pass_begin ::
  "'cb \<Rightarrow> 'n \<Rightarrow> 'x \<Rightarrow> 'y \<Rightarrow> 'kw \<Rightarrow> 'f pyval \<times> 'cb \<times> 'n" where
  "on_backward_pass_begin self net X y kwargs = (PyNone, self, net)"

definition on_backward_pass_end ::
  "'cb \<Rightarrow> 'n \<Rightarrow> 'x \<Rightarrow> 'y \<Rightarrow> 'kw \<Rightarrow> 'f pyval \<times> 'cb \<times> 'n" where
  "on_backward_pass_end self net X y kwargs = (PyNone, self, net)"

definition on_X_to_device_begin :: "'cb \<Rightarrow> 'n \<Rightarrow> 'x \<Rightarrow> 'kw \<Rightarrow> 'f pyval \<times> 'cb \<times> 'n" where
  "on_X_to_device_begin self net X kwargs = (PyNone, self, net)"

definition on_X_to_device_end :: "'cb \<Rightarrow> 'n \<Rightarrow> 'x \<Rightarrow> 'kw \<Rightarrow> 'f pyval \<times> 'cb \<times> 'n" where
  "on_X_to_device_end self net X kwargs = (PyNone, self, net)"

definition on_y_to_device_begin :: "'cb \<Rightarrow> 'n \<Rightarrow> 'y \<Rightarrow> 'kw \<Rightarrow> 'f pyval \<times> 'cb \<times> 'n" where
  "on_y_to_device_begin self net y kwargs = (PyNone, self, net)"

definition on_y_to_device_end :: "'cb \<Rightarrow> 'n \<Rightarrow> 'y \<Rightarrow> 'kw \<Rightarrow> 'f pyval \<times> 'cb \<times> 'n" where
  "on_y_to_device_end self net y kwargs = (PyNone, self, net)"

subsection \<open>\<^verbatim>\<open>PerformanceLogger\<close>\<close>

text \<open>
  The four attributes of the logger, \<^verbatim>\<open>forward_pass_time_\<close> to \<^verbatim>\<open>y_to_device_time_\<close> (a
  name cannot end in an underscore here); \<open>None\<close> is an attribute that no hook has set yet, and
  reading it raises \<^verbatim>\<open>AttributeError\<close>.  Every hook takes the reading \<open>now\<close> of
  \<^verbatim>\<open>time.time()\<close> at its call.
\<close>

record 'f performance_logger =
  forward_pass_time :: "'f option"
  backward_pass_time :: "'f option"
  X_to_device_time :: "'f option"
  y_to_device_time :: "'f option"

definition pl_on_forward_pass_begin :: "'f \<Rightarrow> 'f performance_logger \<Rightarrow> 'f performance_logger" where
  "pl_on_forward_pass_begin now self = self\<lparr>forward_pass_time := Some now\<rparr>"

definition pl_on_forward_pass_end ::
  "'f::minus \<Rightarrow> 'f performance_logger \<Rightarrow> py_exception + 'f performance_logger" where
  "pl_on_forward_pass_end now self =
     (case forward_pass_time self of
        None \<Rightarrow> Inl AttributeError
      | Some t \<Rightarrow> Inr (self\<lparr>forward_pass_time := Some (now - t)\<rparr>))"

definition pl_on_backward_pass_begin :: "'f \<Rightarrow> 'f performance_logger \<Rightarrow> 'f performance_logger" where
  "pl_on_backward_pass_begin now self = self\<lparr>backward_pass_time := Some now\<rparr>"

definition pl_on_backward_pass_end ::
  "'f::minus \<Rightarrow> 'f performance_logger \<Rightarrow> py_exception + 'f performance_logger" where
  "pl_on_backward_pass_end now self =
     (case backward_pass_time self of
        None \<Rightarrow> Inl AttributeError
      | Some t \<Rightarrow> Inr (self\<lparr>backward_pass_time := Some (now - t)\<rparr>))"

definition pl_on_X_to_device_begin :: "'f \<Rightarrow> 'f performance_logger \<Rightarrow> 'f performance_logger" where
  "pl_on_X_to_device_begin now self = self\<lparr>X_to_device_time := Some now\<rparr>"

definition pl_on_X_to_device_end ::
  "'f::minus \<Rightarrow> 'f performance_logger \<Rightarrow> py_exception + 'f performance_logger" where
  "pl_on_X_to_device_end now self =
     (case X_to_device_time self of
        None \<Rightarrow> Inl AttributeError
      | Some t \<Rightarrow> Inr (self\<lparr>X_to_device_time := Some (now - t)\<rparr>))"

definition pl_on_y_to_device_begin :: "'f \<Rightarrow> 'f performance_logger \<Rightarrow> 'f performance_logger" where
  "pl_on_y_to_device_begin now self = self\<lparr>y_to_device_time := Some now\<rparr>"

definition pl_on_y_to_device_end ::
  "'f::minus \<Rightarrow> 'f performance_logger \<Rightarrow> py_exception + 'f performance_logger" where
  "pl_on_y_to_device_end now self =
     (case y_to_device_time self of
        None \<Rightarrow> Inl AttributeError
      | Some t \<Rightarrow> Inr (self\<lparr>y_to_device_time := Some (now - t)\<rparr>))"

text \<open>Sequencing of calls that may raise: the first exception ends the sequence.\<close>

definition and_then :: "py_exception + 'a \<Rightarrow> ('a \<Rightarrow> py_exception + 'b) \<Rightarrow> py_exception + 'b" where
  "and_then r f = (case r of Inl e \<Rightarrow> Inl e | Inr a \<Rightarrow> f a)"

text \<open>
  \<^verbatim>\<open>PerformanceLogger.on_batch_end\<close>: three calls of \<^verbatim>\<open>net.history.record_batch\<close>, each after
  its argument is read from the logger.
\<close>

definition pl_on_batch_end ::
  "'f::plus performance_logger \<Rightarrow> 'f net \<Rightarrow> py_exception + 'f net" where
  "pl_on_batch_end self net =
     (case X_to_device_time self of None \<Rightarrow> Inl AttributeError | Some x \<Rightarrow>
      case y_to_device_time self of None \<Rightarrow> Inl AttributeError | Some y \<Rightarrow>
      and_then (record_batch ''to_device_dur_s'' (PyFloat (x + y)) (history net)) (\<lambda>h1.
      case forward_pass_time self of None \<Rightarrow> Inl AttributeError | Some f \<Rightarrow>
      and_then (record_batch ''forward_pass_dur_s'' (PyFloat f) h1) (\<lambda>h2.
      case backward_pass_time self of None \<Rightarrow> Inl AttributeError | Some b \<Rightarrow>
      and_then (record_batch ''backward_pass_dur_s'' (PyFloat b) h2) (\<lambda>h3.
      Inr (net\<lparr>history := h3\<rparr>)))))"

subsection \<open>\<^verbatim>\<open>TrainReportCallback\<close>\<close>






subsection \<open>\<^verbatim>\<open>PytorchProfilerLogger._trace_handler\<close>\<close>

text \<open>\<^verbatim>\<open>str\<close> of an \<^verbatim>\<open>int\<close>, as an f-string formats it: decimal digits, a minus sign first.\<close>

definition digit_char :: "nat \<Rightarrow> char" where
  "digit_char d = ''0123456789'' ! (d mod 10)"

function str_nat :: "nat \<Rightarrow> string" where
  "str_nat n = (if n < 10 then [digit_char n] else str_nat (n div 10) @ [digit_char (n mod 10)])"
  by pat_completeness auto
termination
  by (relation "measure id") auto

definition str_int :: "int \<Rightarrow> string" where
  "str_int i = (if i < 0 then CHR ''-'' # str_nat (nat (- i)) else str_nat (nat i))"

text \<open>
  The file system as the handler sees it: the directories that exist and the text files with
  their contents, by path.
\<close>

record filesystem =
  dirs :: "string set"
  files :: "string \<rightharpoonup> string"

text \<open>
  The profiler \<open>p\<close>, a \<^verbatim>\<open>torch.profiler.profile\<close>: \<open>export_outcome\<close> is what
  \<^verbatim>\<open>p.export_chrome_trace(path)\<close> does, raise or write this text to \<open>path\<close>;
  \<open>prof_events\<close> is \<^verbatim>\<open>p.events()\<close>.
\<close>

record 'ev profile =
  export_outcome :: "py_exception + string"
  prof_events :: 'ev

text \<open>
  The attributes \<^verbatim>\<open>epoch_\<close> and \<^verbatim>\<open>profiler_traces_\<close> of the logger, which
  \<^verbatim>\<open>on_train_begin\<close> and \<^verbatim>\<open>on_epoch_begin\<close> initialise.
\<close>

record 'ev profiler_logger =
  epoch_attr :: int
  profiler_traces :: "(string \<times> string \<times> 'ev) list"

text \<open>\<^verbatim>\<open>p.export_chrome_trace(path)\<close> on a file system.\<close>

definition export_chrome_trace :: "'ev profile \<Rightarrow> string \<Rightarrow> filesystem \<Rightarrow> py_exception + filesystem" where
  "export_chrome_trace p path fs =
     (case export_outcome p of
        Inl e \<Rightarrow> Inl e
      | Inr trace \<Rightarrow> Inr (fs\<lparr>files := (files fs)(path \<mapsto> trace)\<rparr>))"

text \<open>\<^verbatim>\<open>with open(path) as f: data = f.read()\<close>\<close>

definition read_text :: "string \<Rightarrow> filesystem \<Rightarrow> py_exception + string" where
  "read_text path fs = (case files fs path of None \<Rightarrow> Inl OSError | Some d \<Rightarrow> Inr d)"

text \<open>
  \<^verbatim>\<open>_trace_handler\<close>.  \<open>rank\<close> is \<^verbatim>\<open>train.world_rank()\<close>; \<open>makedirs_outcome\<close> is what
  \<^verbatim>\<open>os.makedirs(dir_name, exist_ok=True)\<close> does in this environment: \<open>None\<close> when it creates
  the directory, the exception when it raises.  The result is the logger and the file system
  after the call, or the exception that leaves the handler.
\<close>

definition trace_handler ::
  "int \<Rightarrow> py_exception option \<Rightarrow> 'ev profile \<Rightarrow> 'ev profiler_logger \<Rightarrow> filesystem \<Rightarrow>
   py_exception + ('ev profiler_logger \<times> filesystem)" where
  "trace_handler rank makedirs_outcome p self fs =
     (let dir_name = ''pytorch_profiler_trace'' in
      and_then
        (if dir_name \<notin> dirs fs then
           (case makedirs_outcome of
              None \<Rightarrow> Inr (fs\<lparr>dirs := insert dir_name (dirs fs)\<rparr>)
            | Some e \<Rightarrow> if is_Exception e then Inl RuntimeError else Inl e)
         else Inr fs)
        (\<lambda>fs1.
           let filename = ''worker_'' @ str_int rank @ ''_'' @ str_int (epoch_attr self) @
                          ''.pt.trace.json'';
               path = dir_name @ ''/'' @ filename
           in case and_then (export_chrome_trace p path fs1) (\<lambda>fs2.
                   and_then (read_text path fs2) (\<lambda>data.
                   Inr (self\<lparr>profiler_traces :=
                              profiler_traces self @ [(filename, data, prof_events p)]\<rparr>, fs2)))
              of Inr r \<Rightarrow> Inr r
               | Inl e \<Rightarrow> if is_RuntimeError e then Inr (self, fs1) else Inl e))"

text \<open>The name of the trace file of worker \<open>rank\<close> after \<open>n\<close> epochs.\<close>

definition trace_filename :: "int \<Rightarrow> int \<Rightarrow> string" where
  "trace_filename rank n = ''worker_'' @ str_int rank @ ''_'' @ str_int n @ ''.pt.trace.json''"

subsection \<open>\<^verbatim>\<open>TrainCheckpoint\<close>\<close>

text \<open>
  An in-memory buffer, \<^verbatim>\<open>io.StringIO\<close> or \<^verbatim>\<open>io.BytesIO\<close>, with its contents;
  \<open>getvalue\<close> is the method \<^verbatim>\<open>getvalue()\<close>.
\<close>

datatype io_buf = StringIO string | BytesIO bytes

fun getvalue :: "io_buf \<Rightarrow> 'f pyval" where
  "getvalue (StringIO s) = PyStr s"
| "getvalue (BytesIO b) = PyBytes b"

text \<open>
  \<^verbatim>\<open>_get_io(self, f_key, value=None)\<close>.  \<^verbatim>\<open>io.StringIO\<close> takes a \<^verbatim>\<open>str\<close> or \<^verbatim>\<open>None\<close>,
  \<^verbatim>\<open>io.BytesIO\<close> a \<^verbatim>\<open>bytes\<close> or \<^verbatim>\<open>None\<close>; both raise \<^verbatim>\<open>TypeError\<close> on anything else.
\<close>

definition tc_get_io :: "string \<Rightarrow> 'f pyval \<Rightarrow> py_exception + io_buf" where
  "tc_get_io f_key v =
     (if f_key = ''f_history'' then
        (case v of PyNone \<Rightarrow> Inr (StringIO []) | PyStr s \<Rightarrow> Inr (StringIO s) | _ \<Rightarrow> Inl TypeError)
      else
        (case v of PyNone \<Rightarrow> Inr (BytesIO []) | PyBytes b \<Rightarrow> Inr (BytesIO b) | _ \<Rightarrow> Inl TypeError))"

text \<open>The truth value of an object, as \<^verbatim>\<open>if\<close> tests it.\<close>

fun truthy :: "'f::zero pyval \<Rightarrow> bool" where
  "truthy PyNone = False"
| "truthy (PyBool b) = b"
| "truthy (PyInt i) = (i \<noteq> 0)"
| "truthy (PyFloat x) = (x \<noteq> 0)"
| "truthy (PyStr s) = (s \<noteq> [])"
| "truthy (PyBytes b) = (b \<noteq> [])"
| "truthy (PyTuple xs) = (xs \<noteq> [])"
| "truthy (PyList xs) = (xs \<noteq> [])"
| "truthy (PyDict d) = (d \<noteq> [])"

text \<open>\<^verbatim>\<open>d.get(k)\<close>\<close>

definition dict_get :: "'f pydict \<Rightarrow> string \<Rightarrow> 'f pyval" where
  "dict_get d k = (case map_of d k of None \<Rightarrow> PyNone | Some v \<Rightarrow> v)"

text \<open>
  \<^verbatim>\<open>k in keys\<close> for a string \<open>k\<close>: membership in a tuple or list, a key of a dictionary, a
  substring of a string; \<^verbatim>\<open>TypeError\<close> for a \<^verbatim>\<open>bytes\<close> object and for an object that is not
  a container.
\<close>

definition is_substring :: "string \<Rightarrow> string \<Rightarrow> bool" where
  "is_substring k s = list_ex (\<lambda>i. take (length k) (drop i s) = k) [0..<Suc (length s)]"

fun str_in :: "string \<Rightarrow> 'f pyval \<Rightarrow> py_exception + bool" where
  "str_in k (PyTuple xs) = Inr (PyStr k \<in> set xs)"
| "str_in k (PyList xs) = Inr (PyStr k \<in> set xs)"
| "str_in k (PyDict d) = Inr (k \<in> fst ` set d)"
| "str_in k (PyStr s) = Inr (is_substring k s)"
| "str_in k _ = Inl TypeError"

text \<open>
  What the callback hands to \<^verbatim>\<open>self._sink(text, net.verbose)\<close>, a method of skorch's
  \<^verbatim>\<open>Checkpoint\<close>: the three messages of this class, by their parts.
\<close>

datatype 'f sink_text =
  Checkpoint_found
  | Loaded_checkpoint "string list" "'f pyval"
  | Unable_to_save string "io_buf option" py_exception

text \<open>
  The attributes of the callback that the two methods read, and \<open>sunk\<close>, the calls of
  \<^verbatim>\<open>self._sink\<close> so far, each with the \<^verbatim>\<open>net.verbose\<close> it was given.
\<close>

record 'f train_checkpoint =
  f_history :: "'f pyval"
  load_checkpoint :: bool
  save_checkpoints :: bool
  sunk :: "('f sink_text \<times> int) list"

definition tc_sink :: "'f sink_text \<Rightarrow> int \<Rightarrow> 'f train_checkpoint \<Rightarrow> 'f train_checkpoint" where
  "tc_sink msg verbosity self = self\<lparr>sunk := sunk self @ [(msg, verbosity)]\<rparr>"

text \<open>
  The comprehension \<^verbatim>\<open>{k: self._get_io(k, v) for k, v in checkpoint.items() if k in keys}\<close>;
  the keys of a dictionary are distinct.
\<close>

fun checkpoint_params :: "'f pyval \<Rightarrow> 'f pydict \<Rightarrow> py_exception + (string \<times> io_buf) list" where
  "checkpoint_params keys [] = Inr []"
| "checkpoint_params keys ((k, v) # items) =
     and_then (str_in k keys) (\<lambda>selected.
       if selected then
         and_then (tc_get_io k v) (\<lambda>f.
         and_then (checkpoint_params keys items) (\<lambda>rest. Inr ((k, f) # rest)))
       else checkpoint_params keys items)"

text \<open>
  \<^verbatim>\<open>TrainCheckpoint.on_train_begin\<close>.  \<open>loaded\<close> is what \<^verbatim>\<open>train.load_checkpoint()\<close>
  returns, \<open>None\<close> or a dictionary; \<open>load_params\<close> is \<^verbatim>\<open>net.load_params\<close>, which takes the
  keyword arguments and changes the net, or raises.
\<close>

definition tc_on_train_begin ::
  "'f train_checkpoint \<Rightarrow> 'f pydict option \<Rightarrow>
   ((string \<times> io_buf) list \<Rightarrow> 'f net \<Rightarrow> py_exception + 'f net) \<Rightarrow> 'f net \<Rightarrow>
   py_exception + ('f train_checkpoint \<times> 'f net)" where
  "tc_on_train_begin self loaded load_params net =
     (if \<not> load_checkpoint self then Inr (self, net)
      else case loaded of
        None \<Rightarrow> Inr (self, net)
      | Some checkpoint \<Rightarrow>
          if checkpoint = [] then Inr (self, net)
          else
            let self1 = tc_sink Checkpoint_found (verbose net) self in
            (case map_of checkpoint ''epoch'' of
               None \<Rightarrow> Inl ValueError
             | Some epoch \<Rightarrow>
                 let checkpoint1 = AList.delete ''epoch'' checkpoint in
                 (case map_of checkpoint1 ''_keys'' of
                    None \<Rightarrow> Inl ValueError
                  | Some keys \<Rightarrow>
                      let checkpoint2 = AList.delete ''_keys'' checkpoint1 in
                      and_then (checkpoint_params keys checkpoint2) (\<lambda>params.
                      and_then (load_params params net) (\<lambda>net1.
                      Inr (tc_sink (Loaded_checkpoint (map fst params) epoch) (verbose net1) self1,
                           net1))))))"

text \<open>
  What claim C8 asks of a value and its buffer.  \<open>buffer_takes k v\<close>: the value \<open>v\<close> is of
  the type that the buffer for key \<open>k\<close> takes, a \<^verbatim>\<open>str\<close> for \<^verbatim>\<open>f_history\<close> and a \<^verbatim>\<open>bytes\<close>
  object for any other key, or \<^verbatim>\<open>None\<close>.  \<open>wrapped_in_buffer k v f\<close>: \<open>f\<close> is an
  \<^verbatim>\<open>io.StringIO\<close> for \<^verbatim>\<open>f_history\<close> and an \<^verbatim>\<open>io.BytesIO\<close> for any other key, and its
  contents are \<open>v\<close> (nothing when \<open>v\<close> is \<^verbatim>\<open>None\<close>).
\<close>

definition buffer_takes :: "string \<Rightarrow> 'f pyval \<Rightarrow> bool" where
  "buffer_takes k v =
     (case v of
        PyNone \<Rightarrow> True
      | PyStr s \<Rightarrow> k = ''f_history''
      | PyBytes b \<Rightarrow> k \<noteq> ''f_history''
      | _ \<Rightarrow> False)"

definition wrapped_in_buffer :: "string \<Rightarrow> 'f pyval \<Rightarrow> io_buf \<Rightarrow> bool" where
  "wrapped_in_buffer k v f =
     (case f of
        StringIO s \<Rightarrow> k = ''f_history'' \<and> (v = PyStr s \<or> (v = PyNone \<and> s = []))
      | BytesIO b \<Rightarrow> k \<noteq> ''f_history'' \<and> (v = PyBytes b \<or> (v = PyNone \<and> b = [])))"

text \<open>A checkpoint, a net and a callback for the closed examples below.\<close>

definition example_checkpoint :: "int pydict" where
  "example_checkpoint =
     [(''_keys'', PyTuple [PyStr ''f_module'', PyStr ''f_history'']),
      (''epoch'', PyInt 3),
      (''f_module'', PyBytes ''abc''),
      (''f_history'', PyStr ''[]''),
      (''f_optimizer'', PyBytes ''zz'')]"

definition example_load_params :: "(string \<times> io_buf) list \<Rightarrow> int net \<Rightarrow> py_exception + int net" where
  "example_load_params params net =
     (if params = [(''f_module'', BytesIO ''abc''), (''f_history'', StringIO ''[]'')]
      then Inr (net\<lparr>verbose := 1\<rparr>) else Inl KeyError)"

definition example_callback :: "int train_checkpoint" where
  "example_callback =
     \<lparr>f_history = PyBool True, load_checkpoint = True, save_checkpoints = True, sunk = []\<rparr>"

text \<open>
  \<^verbatim>\<open>_save_params(self, f, net, f_name, log_name)\<close>.  \<open>save_params\<close> is \<^verbatim>\<open>net.save_params\<close>
  called with the one keyword argument \<open>f_name\<close>: it writes to the buffer \<open>f\<close> and gives the
  buffer after the write, or raises.  The method returns \<open>f\<close>, or \<^verbatim>\<open>None\<close> after an
  exception that \<^verbatim>\<open>except Exception\<close> catches; any other exception leaves the method.
\<close>

definition tc_save_params ::
  "('f net \<Rightarrow> string \<Rightarrow> io_buf option \<Rightarrow> py_exception + io_buf option) \<Rightarrow>
   'f train_checkpoint \<Rightarrow> io_buf option \<Rightarrow> 'f net \<Rightarrow> string \<Rightarrow> string \<Rightarrow>
   py_exception + (io_buf option \<times> 'f train_checkpoint)" where
  "tc_save_params save_params self f net f_name log_name =
     (case save_params net f_name f of
        Inr written \<Rightarrow> Inr (written, self)
      | Inl e \<Rightarrow>
          if is_Exception e
          then Inr (None, tc_sink (Unable_to_save log_name f e) (verbose net) self)
          else Inl e)"

text \<open>
  The property \<^verbatim>\<open>f_history_\<close>: \<^verbatim>\<open>None\<close> when \<^verbatim>\<open>self.f_history\<close> is \<^verbatim>\<open>None\<close>, else a new
  buffer from \<^verbatim>\<open>_get_io("f_history")\<close>.
\<close>

definition f_history_property :: "'f train_checkpoint \<Rightarrow> py_exception + io_buf option" where
  "f_history_property self =
     (if f_history self = PyNone then Inr None
      else and_then (tc_get_io ''f_history'' (PyNone :: 'f pyval)) (\<lambda>f. Inr (Some f)))"

text \<open>
  What \<^verbatim>\<open>open\<close> is given: a path or, as in \<^verbatim>\<open>save_model\<close>, a buffer object.  \<^verbatim>\<open>open\<close> raises
  \<^verbatim>\<open>TypeError\<close> on an object that is neither a path nor a file descriptor; on a path it gives
  the file, here its path.
\<close>

datatype open_arg = Path string | Buffer io_buf

definition py_open :: "open_arg \<Rightarrow> py_exception + string" where
  "py_open a = (case a of Buffer _ \<Rightarrow> Inl TypeError | Path p \<Rightarrow> Inr p)"

text \<open>
  The first loop of \<^verbatim>\<open>save_model\<close>, over the items of \<^verbatim>\<open>kwargs_module\<close> still to visit,
  with \<open>params\<close> the dictionary built so far.  \<^verbatim>\<open>key[:-1]\<close> is \<open>butlast key\<close>.
\<close>

fun save_modules ::
  "('f net \<Rightarrow> string \<Rightarrow> io_buf option \<Rightarrow> py_exception + io_buf option) \<Rightarrow> 'f net \<Rightarrow>
   'f pydict \<Rightarrow> (string \<times> io_buf option) list \<Rightarrow> 'f train_checkpoint \<Rightarrow>
   py_exception + ((string \<times> io_buf option) list \<times> 'f train_checkpoint)" where
  "save_modules save_params net [] params self = Inr (params, self)"
| "save_modules save_params net ((key, val) # items) params self =
     (if val = PyNone then save_modules save_params net items params self
      else
        and_then (tc_get_io (''f_'' @ key) (PyNone :: 'f pyval)) (\<lambda>f.
        and_then (tc_save_params save_params self (Some f) net (''f_'' @ butlast key)
                    (butlast key @ '' state'')) (\<lambda>(saved, self1).
        save_modules save_params net items
          (AList.update (''f_'' @ butlast key) saved params) self1)))"

text \<open>\<^verbatim>\<open>net.history[-1]["epoch"]\<close>\<close>

definition last_epoch :: "'f net \<Rightarrow> py_exception + 'f pyval" where
  "last_epoch net =
     (if history net = [] then Inl IndexError
      else case map_of (cols (last (history net))) ''epoch'' of
             None \<Rightarrow> Inl KeyError
           | Some epoch \<Rightarrow> Inr epoch)"

text \<open>
  The keyword arguments of the call of \<^verbatim>\<open>train.save_checkpoint\<close>: \<^verbatim>\<open>_keys\<close>, \<^verbatim>\<open>epoch\<close> and
  \<^verbatim>\<open>{k: v.getvalue() for k, v in params.items() if v}\<close>.  A buffer object is true, \<^verbatim>\<open>None\<close> is
  false.
\<close>

definition checkpoint_kwargs :: "(string \<times> io_buf option) list \<Rightarrow> 'f pyval \<Rightarrow> 'f pydict" where
  "checkpoint_kwargs params epoch =
     (''_keys'', PyTuple (map PyStr [key \<leftarrow> map fst params. key \<noteq> ''f_pickle''])) #
     (''epoch'', epoch) #
     List.map_filter (\<lambda>(k, v). case v of None \<Rightarrow> None | Some f \<Rightarrow> Some (k, getvalue f)) params"

text \<open>
  \<^verbatim>\<open>TrainCheckpoint.save_model\<close>.  \<open>checked\<close> is what skorch's
  \<^verbatim>\<open>_check_f_arguments(self.__class__.__name__, **self._f_kwargs())\<close> gives: it raises, or
  returns the two dictionaries \<^verbatim>\<open>kwargs_module\<close> and \<^verbatim>\<open>kwargs_other\<close>.  The result is the
  callback after the call and the keyword arguments handed to \<^verbatim>\<open>train.save_checkpoint\<close>, or
  the exception that leaves the method before that call.  \<^verbatim>\<open>pickle.dump(net, f)\<close> has no part
  in the result: \<^verbatim>\<open>open\<close> is given the buffer and raises before it.
\<close>

definition tc_save_model ::
  "py_exception + ('f::zero pydict \<times> 'f pydict) \<Rightarrow>
   ('f net \<Rightarrow> string \<Rightarrow> io_buf option \<Rightarrow> py_exception + io_buf option) \<Rightarrow>
   'f train_checkpoint \<Rightarrow> 'f net \<Rightarrow> py_exception + ('f train_checkpoint \<times> 'f pydict)" where
  "tc_save_model checked save_params self net =
     and_then checked (\<lambda>(kwargs_module, kwargs_other).
     and_then (save_modules save_params net kwargs_module [] self) (\<lambda>(params1, self1).
     and_then
       (if truthy (dict_get kwargs_other ''f_history'') then
          and_then (f_history_property self1) (\<lambda>f.
          and_then (tc_save_params save_params self1 f net ''f_history'' ''history'')
            (\<lambda>(saved, self2). Inr (AList.update ''f_history'' saved params1, self2)))
        else Inr (params1, self1)) (\<lambda>(params2, self2).
     and_then
       (if truthy (dict_get kwargs_other ''f_pickle'') then
          and_then (tc_get_io ''f_pickle'' (PyNone :: 'f pyval)) (\<lambda>f_pickle.
          and_then (py_open (Buffer f_pickle)) (\<lambda>f.
          Inr (AList.update ''f_pickle'' (Some f_pickle) params2)))
        else Inr params2) (\<lambda>params.
     and_then (last_epoch net) (\<lambda>epoch.
     Inr (self2, checkpoint_kwargs params epoch))))))"

text \<open>
  The components \<^verbatim>\<open>save_model\<close> selects, in the order it visits them: for each the keyword
  \<open>f_name\<close> it gives \<^verbatim>\<open>net.save_params\<close>, the new buffer and the name it logs.
\<close>

definition selected_components ::
  "'f::zero pydict \<Rightarrow> 'f pydict \<Rightarrow> 'f train_checkpoint \<Rightarrow> (string \<times> io_buf option \<times> string) list" where
  "selected_components kwargs_module kwargs_other self =
     map (\<lambda>(key, val).
            (''f_'' @ butlast key,
             Some (if ''f_'' @ key = ''f_history'' then StringIO [] else BytesIO []),
             butlast key @ '' state''))
       [(key, val) \<leftarrow> kwargs_module. val \<noteq> PyNone] @
     (if truthy (dict_get kwargs_other ''f_history'')
      then [(''f_history'', if f_history self = PyNone then None else Some (StringIO []),
             ''history'')]
      else [])"

text \<open>A net after two epochs, for the closed examples below.\<close>

definition example_net :: "int net" where
  "example_net =
     \<lparr>history = [\<lparr>cols = [(''epoch'', PyInt 1)], batches = []\<rparr>,
                 \<lparr>cols = [(''epoch'', PyInt 2)], batches = []\<rparr>],
      verbose = 0\<rparr>"

text \<open>
  The two dictionaries \<^verbatim>\<open>_check_f_arguments\<close> returns for a \<^verbatim>\<open>TrainCheckpoint\<close> with its
  default arguments but \<open>f_pickle\<close> as given.
\<close>

definition example_checked :: "bool \<Rightarrow> py_exception + (int pydict \<times> int pydict)" where
  "example_checked f_pickle =
     Inr ([(''criterion_'', PyBool True), (''optimizer_'', PyBool True),
           (''module_'', PyBool True)],
          [(''f_history'', PyBool True), (''f_pickle'', PyBool f_pickle)])"

text \<open>A net whose optimizer cannot be saved: \<^verbatim>\<open>save_params\<close> raises \<open>e\<close> for it.\<close>

definition example_save_params ::
  "py_exception \<Rightarrow> int net \<Rightarrow> string \<Rightarrow> io_buf option \<Rightarrow> py_exception + io_buf option" where
  "example_save_params e net f_name f =
     (if f_name = ''f_optimizer'' then Inl e
      else if f_name = ''f_history'' then Inr (Some (StringIO ''[{}]''))
      else Inr (Some (BytesIO f_name)))"


section \<open>Aggregation: properties\<close>

lemma apply_funcs_default:
  "apply_funcs (DEFAULT_AGGREGATE_FUNC np) vals [] =
     (case np_mean np vals of Inl e \<Rightarrow> Inl e | Inr a \<Rightarrow>
      case np_median np vals of Inl e \<Rightarrow> Inl e | Inr b \<Rightarrow>
      case np_std np vals of Inl e \<Rightarrow> Inl e | Inr c \<Rightarrow>
      case max_and_argmax np vals of Inl e \<Rightarrow> Inl e | Inr d \<Rightarrow>
      case min_and_argmin np vals of Inl e \<Rightarrow> Inl e | Inr m \<Rightarrow>
        Inr [(''mean'', a), (''median'', b), (''std'', c), (''max'', d), (''min'', m)])"
  by (simp add: DEFAULT_AGGREGATE_FUNC_def split: sum.splits)

lemma aggregate_items_absent:
  "aggregate_items np results items acc = Inr out \<Longrightarrow> k \<notin> fst ` set items \<Longrightarrow>
   map_of out k = map_of acc k"
  by (induction items arbitrary: acc)
     (auto simp: AList.update_conv' split: if_splits sum.splits)

lemma aggregate_items_lookup:
  "aggregate_items np results items acc = Inr out \<Longrightarrow> distinct (map fst items) \<Longrightarrow>
   (k, v) \<in> set items \<Longrightarrow>
   map_of out k =
     (if k \<in> DEFAULT_KEYS_TO_IGNORE then Some v
      else if is_number v then
        (case apply_funcs (DEFAULT_AGGREGATE_FUNC np) (gather_key k results) [] of
           Inl e \<Rightarrow> None | Inr a \<Rightarrow> Some (PyDict a))
      else map_of acc k)"
proof (induction items arbitrary: acc)
  case Nil
  then show ?case by simp
next
  case (Cons p items)
  obtain key w where p: "p = (key, w)" by (cases p)
  show ?case
  proof (cases "k = key")
    case True
    with Cons.prems p have notin: "k \<notin> fst ` set items" and vw: "v = w"
      by (auto simp: rev_image_eqI)
    from Cons.prems(1) p True vw notin show ?thesis
      by (auto simp: AList.update_conv' split: if_splits sum.splits
               dest: aggregate_items_absent)
  next
    case False
    with Cons.prems p have mem: "(k, v) \<in> set items" and d: "distinct (map fst items)"
      by auto
    from Cons.prems(1) p False show ?thesis
      by (auto simp: AList.update_conv' split: if_splits sum.splits
               dest!: Cons.IH[OF _ d mem])
  qed
qed

lemma aggregate_items_returns:
  "numpy_accepts np results items \<Longrightarrow> \<exists>out. aggregate_items np results items acc = Inr out"
proof (induction items arbitrary: acc)
  case Nil
  then show ?case by simp
next
  case (Cons p items)
  obtain key w where p: "p = (key, w)" by (cases p)
  from Cons.prems have rest: "numpy_accepts np results items"
    by (simp add: numpy_accepts_def)
  note IH = Cons.IH[OF rest]
  show ?case
  proof (cases "key \<in> DEFAULT_KEYS_TO_IGNORE")
    case True
    then show ?thesis using IH p by simp
  next
    case False
    show ?thesis
    proof (cases "is_number w")
      case True
      with Cons.prems p False
      obtain a where "apply_funcs (DEFAULT_AGGREGATE_FUNC np) (gather_key key results) [] = Inr a"
        by (cases "apply_funcs (DEFAULT_AGGREGATE_FUNC np) (gather_key key results) []")
           (auto simp: numpy_accepts_def)
      then show ?thesis using IH p False True by simp
    next
      case nn: False
      then show ?thesis using IH p False by simp
    qed
  qed
qed


lemma handle_result_returns:
  assumes "results = r0 # rest" and "numpy_accepts np results r0" and "log_file = Some loaded"
  shows "\<exists>agg. aggregate_items np results r0 [] = Inr agg \<and>
           handle_result np results log_file =
             Inr (loaded @ [\<lparr>raw = enumerate 0 results, aggregated = agg\<rparr>])"
proof -
  from aggregate_items_returns[OF assms(2)]
  obtain agg where "aggregate_items np results r0 [] = Inr agg" by blast
  then show ?thesis using assms(1,3) by (simp add: handle_result_def)
qed

lemma gather_key_values:
  "gather_key key results =
     [the (map_of result key). result \<leftarrow> results, key \<in> fst ` set result]"
proof (induction results)
  case Nil
  then show ?case by (simp add: gather_key_def List.map_filter_simps)
next
  case (Cons r results)
  show ?case
  proof (cases "map_of r key")
    case None
    then have "key \<notin> fst ` set r" by (simp add: map_of_eq_None_iff)
    with None Cons show ?thesis by (simp add: gather_key_def List.map_filter_simps)
  next
    case (Some v)
    then have "key \<in> fst ` set r" by (metis map_of_eq_None_iff option.distinct(1))
    with Some Cons show ?thesis by (simp add: gather_key_def List.map_filter_simps)
  qed
qed

text \<open>
  Claim C1, amended.  Let the list of results be non-empty, the first worker's dictionary \<open>r0\<close>
  have distinct keys, the log file be readable and NumPy raise on none of the lists gathered
  for the numeric, not ignored keys of \<open>r0\<close>.  Then \<^verbatim>\<open>handle_result\<close> writes a log whose
  last entry maps, under \<^verbatim>\<open>"aggregated"\<close>, every key of \<open>r0\<close> that is not in
  \<^verbatim>\<open>DEFAULT_KEYS_TO_IGNORE\<close> and whose value is a number to a dictionary with exactly the keys
  mean, median, std, max and min, in this order.  The value of each is what the function of
  that name in \<^verbatim>\<open>DEFAULT_AGGREGATE_FUNC\<close> returns on \<open>vals\<close>, the values of the key in the
  workers that contain it, in the order of the workers: \<^verbatim>\<open>np.mean\<close>, \<^verbatim>\<open>np.median\<close>,
  \<^verbatim>\<open>np.std\<close>, the pair of \<^verbatim>\<open>np.max\<close> and \<^verbatim>\<open>np.argmax\<close>, the pair of \<^verbatim>\<open>np.min\<close> and
  \<^verbatim>\<open>np.argmin\<close>.
\<close>

theorem handle_result_aggregates_numeric_keys:
  assumes "results = r0 # rest"
    and "distinct (map fst r0)"
    and "numpy_accepts np results r0"
    and "log_file = Some loaded"
    and "(key, v) \<in> set r0"
    and "key \<notin> DEFAULT_KEYS_TO_IGNORE"
    and "is_number v"
    and "vals = [the (map_of result key). result \<leftarrow> results, key \<in> fst ` set result]"
  shows "\<exists>final a b c m i n j.
           handle_result np results log_file = Inr (loaded @ [final]) \<and>
           np_mean np vals = Inr a \<and> np_median np vals = Inr b \<and> np_std np vals = Inr c \<and>
           np_max np vals = Inr m \<and> np_argmax np vals = Inr i \<and>
           np_min np vals = Inr n \<and> np_argmin np vals = Inr j \<and>
           map_of (aggregated final) key =
             Some (PyDict [(''mean'', a), (''median'', b), (''std'', c),
                           (''max'', PyTuple [m, i]), (''min'', PyTuple [n, j])]) \<and>
           list_all2 (\<lambda>(func_key, func) (stat_key, stat).
                        stat_key = func_key \<and> func vals = Inr stat)
             (DEFAULT_AGGREGATE_FUNC np)
             [(''mean'', a), (''median'', b), (''std'', c),
              (''max'', PyTuple [m, i]), (''min'', PyTuple [n, j])]"
proof -
  from handle_result_returns[OF assms(1,3,4)]
  obtain agg where agg: "aggregate_items np results r0 [] = Inr agg"
    and ret: "handle_result np results log_file =
                Inr (loaded @ [\<lparr>raw = enumerate 0 results, aggregated = agg\<rparr>])"
    by blast
  have vals: "gather_key key results = vals"
    unfolding assms(8) by (rule gather_key_values)
  from assms(3,5,6,7) have ok: "\<not> isl (apply_funcs (DEFAULT_AGGREGATE_FUNC np) vals [])"
    unfolding vals[symmetric] by (auto simp: numpy_accepts_def)
  then obtain stats where stats: "apply_funcs (DEFAULT_AGGREGATE_FUNC np) vals [] = Inr stats"
    by (cases "apply_funcs (DEFAULT_AGGREGATE_FUNC np) vals []") auto
  from aggregate_items_lookup[OF agg assms(2,5)] assms(6,7) stats
  have look: "map_of agg key = Some (PyDict stats)" by (simp add: vals)
  from stats obtain a b c d e where a: "np_mean np vals = Inr a"
    and b: "np_median np vals = Inr b" and c: "np_std np vals = Inr c"
    and d: "max_and_argmax np vals = Inr d" and e: "min_and_argmin np vals = Inr e"
    and shape: "stats = [(''mean'', a), (''median'', b), (''std'', c), (''max'', d), (''min'', e)]"
    by (auto simp: apply_funcs_default split: sum.splits)
  from d obtain m i where m: "np_max np vals = Inr m" and i: "np_argmax np vals = Inr i"
    and dd: "d = PyTuple [m, i]"
    by (auto simp: max_and_argmax_def split: sum.splits)
  from e obtain n j where n: "np_min np vals = Inr n" and j: "np_argmin np vals = Inr j"
    and ee: "e = PyTuple [n, j]"
    by (auto simp: min_and_argmin_def split: sum.splits)
  have each: "list_all2 (\<lambda>(func_key, func) (stat_key, stat).
                        stat_key = func_key \<and> func vals = Inr stat)
             (DEFAULT_AGGREGATE_FUNC np)
             [(''mean'', a), (''median'', b), (''std'', c),
              (''max'', PyTuple [m, i]), (''min'', PyTuple [n, j])]"
    using a b c d e dd ee by (simp add: DEFAULT_AGGREGATE_FUNC_def)
  have look': "map_of (aggregated \<lparr>raw = enumerate 0 results, aggregated = agg\<rparr>) key =
             Some (PyDict [(''mean'', a), (''median'', b), (''std'', c),
                           (''max'', PyTuple [m, i]), (''min'', PyTuple [n, j])])"
    using look shape dd ee by simp
  show ?thesis
    using ret a b c m i n j look' each
    by (intro exI[of _ "\<lparr>raw = enumerate 0 results, aggregated = agg\<rparr>"]
              exI[of _ a] exI[of _ b] exI[of _ c] exI[of _ m] exI[of _ i] exI[of _ n]
              exI[of _ j] conjI)
qed

text \<open>
  Claim C9.  Under the same conditions, only the keys of the first worker's dictionary are
  considered: a key that is not in \<open>r0\<close> (whatever the other workers report) is absent from
  \<^verbatim>\<open>"aggregated"\<close>; a key of \<open>r0\<close> in \<^verbatim>\<open>DEFAULT_KEYS_TO_IGNORE\<close> is copied with the value it has
  in \<open>r0\<close>; a key of \<open>r0\<close> that is neither ignored nor numeric is absent from \<^verbatim>\<open>"aggregated"\<close>,
  while \<^verbatim>\<open>"raw"\<close> holds every worker's dictionary, \<open>r0\<close> at index 0.
\<close>

theorem handle_result_uses_first_worker_keys:
  assumes "results = r0 # rest"
    and "distinct (map fst r0)"
    and "numpy_accepts np results r0"
    and "log_file = Some loaded"
  shows "\<exists>final.
           handle_result np results log_file = Inr (loaded @ [final]) \<and>
           raw final = enumerate 0 results \<and>
           map_of (raw final) 0 = Some r0 \<and>
           (\<forall>k. k \<notin> fst ` set r0 \<longrightarrow> map_of (aggregated final) k = None) \<and>
           (\<forall>(k, v) \<in> set r0. k \<in> DEFAULT_KEYS_TO_IGNORE \<longrightarrow>
              map_of (aggregated final) k = Some v) \<and>
           (\<forall>(k, v) \<in> set r0. k \<notin> DEFAULT_KEYS_TO_IGNORE \<and> \<not> is_number v \<longrightarrow>
              map_of (aggregated final) k = None)"
proof -
  from handle_result_returns[OF assms(1,3,4)]
  obtain agg where agg: "aggregate_items np results r0 [] = Inr agg"
    and ret: "handle_result np results log_file =
                Inr (loaded @ [\<lparr>raw = enumerate 0 results, aggregated = agg\<rparr>])"
    by blast
  have absent: "\<forall>k. k \<notin> fst ` set r0 \<longrightarrow> map_of agg k = None"
    using aggregate_items_absent[OF agg] by simp
  have ignored: "\<forall>(k, v) \<in> set r0. k \<in> DEFAULT_KEYS_TO_IGNORE \<longrightarrow> map_of agg k = Some v"
    using aggregate_items_lookup[OF agg assms(2)] by auto
  have dropped: "\<forall>(k, v) \<in> set r0. k \<notin> DEFAULT_KEYS_TO_IGNORE \<and> \<not> is_number v \<longrightarrow>
                   map_of agg k = None"
    using aggregate_items_lookup[OF agg assms(2)] by auto
  have first: "map_of (enumerate 0 results) 0 = Some r0"
    using assms(1) by simp
  show ?thesis
    using ret absent ignored dropped first
    by (intro exI[of _ "\<lparr>raw = enumerate 0 results, aggregated = agg\<rparr>"]) simp
qed

text \<open>Claim C9 at the results of two workers.\<close>

lemma example_accepts: "numpy_accepts stub_numpy example_results (hd example_results)"
  by (simp add: numpy_accepts_def example_results_def stub_numpy_def gather_key_def
      List.map_filter_simps DEFAULT_AGGREGATE_FUNC_def max_and_argmax_def min_and_argmin_def)


theorem handle_result_uses_first_worker_keys_witness:
  "\<exists>final. handle_result stub_numpy example_results (Some []) = Inr [final] \<and>
     map_of (raw final) 0 = Some (hd example_results) \<and>
     map_of (aggregated final) ''extra'' = None \<and>
     map_of (aggregated final) ''epoch'' = Some (PyInt 1) \<and>
     map_of (aggregated final) ''tag'' = None"
proof -
  have r: "example_results = hd example_results # tl example_results"
    and d: "distinct (map fst (hd example_results))"
    by (simp_all add: example_results_def)
  from handle_result_uses_first_worker_keys[OF r d example_accepts refl[of "Some []"]]
  obtain final where all:
    "handle_result stub_numpy example_results (Some []) = Inr ([] @ [final]) \<and>
     raw final = enumerate 0 example_results \<and>
     map_of (raw final) 0 = Some (hd example_results) \<and>
     (\<forall>k. k \<notin> fst ` set (hd example_results) \<longrightarrow> map_of (aggregated final) k = None) \<and>
     (\<forall>(k, v) \<in> set (hd example_results). k \<in> DEFAULT_KEYS_TO_IGNORE \<longrightarrow>
                    map_of (aggregated final) k = Some v) \<and>
     (\<forall>(k, v) \<in> set (hd example_results).
                    k \<notin> DEFAULT_KEYS_TO_IGNORE \<and> \<not> is_number v \<longrightarrow>
                    map_of (aggregated final) k = None)" ..
  from all have a: "map_of (aggregated final) ''extra'' = None"
    by (simp add: example_results_def)
  from all have b: "map_of (aggregated final) ''epoch'' = Some (PyInt 1)"
    by (simp add: example_results_def DEFAULT_KEYS_TO_IGNORE_def)
  from all have c: "map_of (aggregated final) ''tag'' = None"
    by (simp add: example_results_def DEFAULT_KEYS_TO_IGNORE_def)
  from all a b c show ?thesis by auto
qed

text \<open>
  Claim C1 at the results of two workers, with the stand-in that shows the list each function
  was given.
\<close>

lemma symbolic_accepts: "numpy_accepts symbolic_numpy example_results (hd example_results)"
  by (simp add: numpy_accepts_def example_results_def symbolic_numpy_def symbolic_def
      gather_key_def List.map_filter_simps DEFAULT_AGGREGATE_FUNC_def max_and_argmax_def
      min_and_argmin_def)

theorem handle_result_aggregates_numeric_keys_witness:
  "\<exists>final. handle_result symbolic_numpy example_results (Some []) = Inr [final] \<and>
     map_of (aggregated final) ''loss'' =
       Some (PyDict
         [(''mean'', PyTuple [PyStr ''np.mean'', PyList [PyInt 4, PyInt 6]]),
          (''median'', PyTuple [PyStr ''np.median'', PyList [PyInt 4, PyInt 6]]),
          (''std'', PyTuple [PyStr ''np.std'', PyList [PyInt 4, PyInt 6]]),
          (''max'', PyTuple [PyTuple [PyStr ''np.max'', PyList [PyInt 4, PyInt 6]],
                             PyTuple [PyStr ''np.argmax'', PyList [PyInt 4, PyInt 6]]]),
          (''min'', PyTuple [PyTuple [PyStr ''np.min'', PyList [PyInt 4, PyInt 6]],
                             PyTuple [PyStr ''np.argmin'', PyList [PyInt 4, PyInt 6]]])])"
proof -
  have r: "example_results = hd example_results # tl example_results"
    and d: "distinct (map fst (hd example_results))"
    and m: "(''loss'', PyInt 4) \<in> set (hd example_results)"
    and i: "''loss'' \<notin> DEFAULT_KEYS_TO_IGNORE"
    and n: "is_number (PyInt 4 :: int pyval)"
    and v: "[PyInt 4, PyInt 6] =
            [the (map_of result ''loss''). result \<leftarrow> example_results,
             ''loss'' \<in> fst ` set result]"
    by (simp_all add: example_results_def DEFAULT_KEYS_TO_IGNORE_def)
  from handle_result_aggregates_numeric_keys
         [OF r d symbolic_accepts refl[of "Some []"] m i n v]
  obtain final a b c m i n j where
    "handle_result symbolic_numpy example_results (Some []) = Inr ([] @ [final])"
    "np_mean symbolic_numpy [PyInt 4, PyInt 6] = Inr a"
    "np_median symbolic_numpy [PyInt 4, PyInt 6] = Inr b"
    "np_std symbolic_numpy [PyInt 4, PyInt 6] = Inr c"
    "np_max symbolic_numpy [PyInt 4, PyInt 6] = Inr m"
    "np_argmax symbolic_numpy [PyInt 4, PyInt 6] = Inr i"
    "np_min symbolic_numpy [PyInt 4, PyInt 6] = Inr n"
    "np_argmin symbolic_numpy [PyInt 4, PyInt 6] = Inr j"
    "map_of (aggregated final) ''loss'' =
             Some (PyDict [(''mean'', a), (''median'', b), (''std'', c),
                           (''max'', PyTuple [m, i]), (''min'', PyTuple [n, j])])"
    by blast
  then show ?thesis
    by (intro exI[of _ final]) (auto simp: symbolic_numpy_def symbolic_def)
qed

text \<open>
  The list of results is not empty and \<^verbatim>\<open>loss\<close> is a numeric, not ignored key of worker 0,
  but the second worker reports a string for it: \<^verbatim>\<open>np.mean\<close> raises and so does
  \<^verbatim>\<open>handle_result\<close>; there is no \<^verbatim>\<open>"aggregated"\<close> output.
\<close>

theorem handle_result_numpy_raises_counterexample:
  "hd mixed_results = [(''loss'', PyFloat 1)] \<and>
   is_number (PyFloat 1 :: int pyval) \<and>
   ''loss'' \<notin> DEFAULT_KEYS_TO_IGNORE \<and>
   np_mean symbolic_numpy [PyFloat 1, PyStr ''abc''] = Inl TypeError \<and>
   handle_result symbolic_numpy mixed_results (Some []) = Inl TypeError"
  by (simp add: mixed_results_def DEFAULT_KEYS_TO_IGNORE_def symbolic_numpy_def symbolic_def
      handle_result_def gather_key_def List.map_filter_simps DEFAULT_AGGREGATE_FUNC_def)


section \<open>Callbacks: properties\<close>

text \<open>
  Claim C5.  Each of the eight hooks that \<^verbatim>\<open>RayTrainCallback\<close> adds returns \<^verbatim>\<open>None\<close> and
  leaves the callback object and the net as they were, whatever the arguments.
\<close>

theorem RayTrainCallback_hooks_are_noops:
  "on_forward_pass_begin self net X kwargs = (PyNone, self, net) \<and>
   on_forward_pass_end self net X kwargs = (PyNone, self, net) \<and>
   on_backward_pass_begin self net X y kwargs = (PyNone, self, net) \<and>
   on_backward_pass_end self net X y kwargs = (PyNone, self, net) \<and>
   on_X_to_device_begin self net X kwargs = (PyNone, self, net) \<and>
   on_X_to_device_end self net X kwargs = (PyNone, self, net) \<and>
   on_y_to_device_begin self net y kwargs = (PyNone, self, net) \<and>
   on_y_to_device_end self net y kwargs = (PyNone, self, net)"
  by (simp add: on_forward_pass_begin_def on_forward_pass_end_def on_backward_pass_begin_def
      on_backward_pass_end_def on_X_to_device_begin_def on_X_to_device_end_def
      on_y_to_device_begin_def on_y_to_device_end_def)

lemma record_batch_current:
  "h \<noteq> [] \<Longrightarrow> batches (last h) \<noteq> [] \<Longrightarrow>
   record_batch attr v h =
     Inr (butlast h @ [(last h)\<lparr>batches := butlast (batches (last h)) @
                                       [AList.update attr v (last (batches (last h)))]\<rparr>])"
  by (simp add: record_batch_def)

text \<open>
  Claim C6.  In a batch of training the net fires the four hook pairs (copy of \<open>X\<close>, copy of
  \<open>y\<close>, forward pass, backward pass) and then \<^verbatim>\<open>on_batch_end\<close>; \<open>t1\<close> to \<open>t8\<close> are the
  readings of the clock at the eight hooks.  When the history has a current batch row \<open>b\<close>,
  \<^verbatim>\<open>on_batch_end\<close> returns, and it has set exactly three entries of \<open>b\<close>:
  \<^verbatim>\<open>to_device_dur_s\<close> to the sum of the two copy durations, \<^verbatim>\<open>forward_pass_dur_s\<close> and
  \<^verbatim>\<open>backward_pass_dur_s\<close> to the durations of the passes.  The rest of the history and the
  net are unchanged.
\<close>

theorem PerformanceLogger_batch_entries:
  fixes s0 :: "'f::{plus,minus} performance_logger"
  assumes "history net = epochs @ [row]" and "batches row = bs @ [b]"
  shows "and_then (pl_on_X_to_device_end t2 (pl_on_X_to_device_begin t1 s0)) (\<lambda>s1.
         and_then (pl_on_y_to_device_end t4 (pl_on_y_to_device_begin t3 s1)) (\<lambda>s2.
         and_then (pl_on_forward_pass_end t6 (pl_on_forward_pass_begin t5 s2)) (\<lambda>s3.
         and_then (pl_on_backward_pass_end t8 (pl_on_backward_pass_begin t7 s3)) (\<lambda>s4.
         pl_on_batch_end s4 net)))) =
         Inr (net\<lparr>history := epochs @ [row\<lparr>batches := bs @
               [AList.update ''backward_pass_dur_s'' (PyFloat (t8 - t7))
                 (AList.update ''forward_pass_dur_s'' (PyFloat (t6 - t5))
                   (AList.update ''to_device_dur_s'' (PyFloat ((t2 - t1) + (t4 - t3))) b))]\<rparr>]\<rparr>)"
  using assms
  by (simp add: and_then_def pl_on_X_to_device_end_def pl_on_X_to_device_begin_def
      pl_on_y_to_device_end_def pl_on_y_to_device_begin_def
      pl_on_forward_pass_end_def pl_on_forward_pass_begin_def
      pl_on_backward_pass_end_def pl_on_backward_pass_begin_def
      pl_on_batch_end_def record_batch_def)


theorem PerformanceLogger_batch_entries_witness:
  "pl_on_batch_end
     \<lparr>forward_pass_time = Some (5::int), backward_pass_time = Some 8,
      X_to_device_time = Some 2, y_to_device_time = Some 3\<rparr>
     \<lparr>history = [\<lparr>cols = [(''epoch'', PyInt 1)], batches = [[(''train_loss'', PyFloat 7)]]\<rparr>],
      verbose = 0\<rparr> =
   Inr \<lparr>history = [\<lparr>cols = [(''epoch'', PyInt 1)],
                     batches = [[(''train_loss'', PyFloat 7), (''to_device_dur_s'', PyFloat 5),
                                 (''forward_pass_dur_s'', PyFloat 5),
                                 (''backward_pass_dur_s'', PyFloat 8)]]\<rparr>],
        verbose = 0\<rparr>"
  using PerformanceLogger_batch_entries
    [of "\<lparr>history = [\<lparr>cols = [(''epoch'', PyInt 1)], batches = [[(''train_loss'', PyFloat 7)]]\<rparr>],
          verbose = 0\<rparr>"
        "[]" "\<lparr>cols = [(''epoch'', PyInt 1)], batches = [[(''train_loss'', PyFloat (7::int))]]\<rparr>"
        "[]" "[(''train_loss'', PyFloat 7)]"
        12 10 "\<lparr>forward_pass_time = None, backward_pass_time = None,
                X_to_device_time = None, y_to_device_time = None\<rparr>"
        15 12 20 15 28 20]
  by (simp add: and_then_def pl_on_X_to_device_end_def pl_on_X_to_device_begin_def
      pl_on_y_to_device_end_def pl_on_y_to_device_begin_def
      pl_on_forward_pass_end_def pl_on_forward_pass_begin_def
      pl_on_backward_pass_end_def pl_on_backward_pass_begin_def)





text \<open>
  Claim C4, amended.  When the directory \<^verbatim>\<open>pytorch_profiler_trace\<close> exists or
  \<^verbatim>\<open>os.makedirs\<close> creates it, the handler calls \<^verbatim>\<open>export_chrome_trace\<close> on the path
  \<^verbatim>\<open>pytorch_profiler_trace/worker_{rank}_{epoch}.pt.trace.json\<close>; when the export succeeds
  the file holds the trace, and the handler appends the triple of the file name, the text read
  back and \<^verbatim>\<open>p.events()\<close> to \<^verbatim>\<open>profiler_traces_\<close>; when the export raises a
  \<^verbatim>\<open>RuntimeError\<close> the handler returns with the logger unchanged.  When the directory does not
  exist and \<^verbatim>\<open>os.makedirs\<close> raises, the handler raises \<^verbatim>\<open>RuntimeError\<close> and exports nothing.
\<close>

theorem trace_handler_exports_and_appends:
  "(''pytorch_profiler_trace'' \<in> dirs fs \<or> makedirs_outcome = None \<longrightarrow>
      (\<forall>trace. export_outcome p = Inr trace \<longrightarrow>
         (\<exists>fs'. trace_handler rank makedirs_outcome p self fs =
                  Inr (self\<lparr>profiler_traces := profiler_traces self @
                         [(trace_filename rank (epoch_attr self), trace, prof_events p)]\<rparr>, fs') \<and>
                files fs' (''pytorch_profiler_trace/'' @ trace_filename rank (epoch_attr self)) =
                  Some trace)) \<and>
      (\<forall>e. export_outcome p = Inl e \<and> is_RuntimeError e \<longrightarrow>
         (\<exists>fs'. trace_handler rank makedirs_outcome p self fs = Inr (self, fs') \<and>
                files fs' = files fs))) \<and>
   (\<forall>e. ''pytorch_profiler_trace'' \<notin> dirs fs \<and> makedirs_outcome = Some e \<and> is_Exception e \<longrightarrow>
      trace_handler rank makedirs_outcome p self fs = Inl RuntimeError)"
  by (auto simp: trace_handler_def and_then_def export_chrome_trace_def read_text_def
      trace_filename_def Let_def split: option.splits)

theorem trace_handler_exports_and_appends_witness:
  "trace_handler 2 None \<lparr>export_outcome = Inr ''{}'', prof_events = [''step'']\<rparr>
     \<lparr>epoch_attr = 13, profiler_traces = []\<rparr> \<lparr>dirs = {}, files = Map.empty\<rparr> =
   Inr (\<lparr>epoch_attr = 13,
          profiler_traces = [(''worker_2_13.pt.trace.json'', ''{}'', [''step''])]\<rparr>,
        \<lparr>dirs = {''pytorch_profiler_trace''},
          files = [''pytorch_profiler_trace/worker_2_13.pt.trace.json'' \<mapsto> ''{}'']\<rparr>) \<and>
   trace_handler 2 None \<lparr>export_outcome = Inl RuntimeError, prof_events = [''step'']\<rparr>
     \<lparr>epoch_attr = 13, profiler_traces = []\<rparr> \<lparr>dirs = {}, files = Map.empty\<rparr> =
   Inr (\<lparr>epoch_attr = 13, profiler_traces = []\<rparr>,
        \<lparr>dirs = {''pytorch_profiler_trace''}, files = Map.empty\<rparr>) \<and>
   trace_handler 2 (Some OSError) \<lparr>export_outcome = Inr ''{}'', prof_events = [''step'']\<rparr>
     \<lparr>epoch_attr = 13, profiler_traces = []\<rparr> \<lparr>dirs = {}, files = Map.empty\<rparr> =
   Inl RuntimeError"
proof -
  have n: "str_int 2 = ''2''" "str_int 13 = ''13''"
    by (simp_all add: str_int_def digit_char_def)
  show ?thesis
    using trace_handler_exports_and_appends
      [of "\<lparr>dirs = {}, files = Map.empty\<rparr>" None
          "\<lparr>export_outcome = Inr ''{}'', prof_events = [''step'']\<rparr>" 2
          "\<lparr>epoch_attr = 13, profiler_traces = []\<rparr>"]
      trace_handler_exports_and_appends
      [of "\<lparr>dirs = {}, files = Map.empty\<rparr>" None
          "\<lparr>export_outcome = Inl RuntimeError, prof_events = [''step'']\<rparr>" 2
          "\<lparr>epoch_attr = 13, profiler_traces = []\<rparr>"]
      trace_handler_exports_and_appends
      [of "\<lparr>dirs = {}, files = Map.empty\<rparr>" "Some OSError"
          "\<lparr>export_outcome = Inr ''{}'', prof_events = [''step'']\<rparr>" 2
          "\<lparr>epoch_attr = 13, profiler_traces = []\<rparr>"]
    by (simp add: trace_handler_def and_then_def export_chrome_trace_def read_text_def
        trace_filename_def n Let_def)
qed

text \<open>
  The handler runs, the export would succeed, and nothing is exported: the directory is
  missing and cannot be created.
\<close>

theorem trace_handler_directory_counterexample:
  "export_outcome \<lparr>export_outcome = Inr ''{}'', prof_events = [''step'']\<rparr> = Inr ''{}'' \<and>
   trace_handler 0 (Some OSError) \<lparr>export_outcome = Inr ''{}'', prof_events = [''step'']\<rparr>
     \<lparr>epoch_attr = 0, profiler_traces = []\<rparr> \<lparr>dirs = {}, files = Map.empty\<rparr> =
   Inl RuntimeError"
  by (simp add: trace_handler_def and_then_def)



lemma checkpoint_params_selected:
  assumes "keys = PyTuple ks \<or> keys = PyList ks"
    and "\<forall>(k, v) \<in> set items. PyStr k \<in> set ks \<longrightarrow> \<not> isl (tc_get_io k v)"
  shows "\<exists>params. checkpoint_params keys items = Inr params \<and>
           list_all2 (\<lambda>(k, v) (k', f). k' = k \<and> tc_get_io k v = Inr f)
             [(k, v) \<leftarrow> items. PyStr k \<in> set ks] params"
  using assms(2)
proof (induction items)
  case Nil
  then show ?case by simp
next
  case (Cons p items)
  obtain k v where p: "p = (k, v)" by (cases p)
  from Cons.prems have "\<forall>(k, v) \<in> set items. PyStr k \<in> set ks \<longrightarrow> \<not> isl (tc_get_io k v)"
    by simp
  from Cons.IH[OF this] obtain rest where
    rest: "checkpoint_params keys items = Inr rest"
    and all2: "list_all2 (\<lambda>(k, v) (k', f). k' = k \<and> tc_get_io k v = Inr f)
             [(k, v) \<leftarrow> items. PyStr k \<in> set ks] rest"
    by blast
  have sel: "str_in k keys = Inr (PyStr k \<in> set ks)"
    using assms(1) by auto
  show ?case
  proof (cases "PyStr k \<in> set ks")
    case True
    with Cons.prems p obtain f where f: "tc_get_io k v = Inr f"
      by (cases "tc_get_io k v") auto
    show ?thesis
      using p sel True f rest all2 by (simp add: and_then_def)
  next
    case False
    then show ?thesis
      using p sel rest all2 by (simp add: and_then_def)
  qed
qed

lemma tc_get_io_typed: "buffer_takes k v \<Longrightarrow> \<not> isl (tc_get_io k v)"
  by (cases v) (auto simp: buffer_takes_def tc_get_io_def)

lemma tc_get_io_wraps: "tc_get_io k v = Inr f \<Longrightarrow> wrapped_in_buffer k v f"
  by (cases v) (auto simp: wrapped_in_buffer_def tc_get_io_def split: if_splits)

lemma str_in_raises: "str_in k keys = Inl e \<Longrightarrow> e = TypeError"
  by (cases keys) auto

lemma tc_get_io_raises: "tc_get_io k v = Inl e \<Longrightarrow> e = TypeError"
  by (cases v) (auto simp: tc_get_io_def split: if_splits)

lemma checkpoint_params_raises: "checkpoint_params keys items = Inl e \<Longrightarrow> e = TypeError"
proof (induction items)
  case Nil
  then show ?case by simp
next
  case (Cons p items)
  obtain k v where p: "p = (k, v)" by (cases p)
  from Cons.prems Cons.IH show ?case
    unfolding p
    by (auto simp: and_then_def split: sum.splits if_splits
             dest: str_in_raises tc_get_io_raises)
qed

text \<open>
  Claim C8, amended.  \<^verbatim>\<open>on_train_begin\<close> returns with the net and the callback untouched
  when \<^verbatim>\<open>load_checkpoint\<close> is false or \<^verbatim>\<open>train.load_checkpoint()\<close> gives \<^verbatim>\<open>None\<close> or an
  empty dictionary.  Otherwise it raises \<^verbatim>\<open>ValueError\<close>, whatever \<^verbatim>\<open>net.load_params\<close> would
  do, when the dictionary lacks \<^verbatim>\<open>epoch\<close> or \<^verbatim>\<open>_keys\<close>.  With both entries present,
  \<^verbatim>\<open>_keys\<close> a tuple or a list and each remaining entry whose key is in \<^verbatim>\<open>_keys\<close> of the
  type its buffer takes, it calls \<^verbatim>\<open>net.load_params\<close> with exactly those entries, in their
  order, each value in an \<^verbatim>\<open>io.StringIO\<close> (for \<^verbatim>\<open>f_history\<close>) or an \<^verbatim>\<open>io.BytesIO\<close>; an
  exception of that call leaves the method, and when the call returns the method has handed
  its two messages to \<^verbatim>\<open>self._sink\<close> and returns.  With both entries present a
  \<^verbatim>\<open>ValueError\<close> can only come out of \<^verbatim>\<open>net.load_params\<close>.
\<close>

theorem on_train_begin_loads_selected_entries:
  "(\<not> load_checkpoint self \<or> loaded = None \<or> loaded = Some [] \<longrightarrow>
      tc_on_train_begin self loaded load_params net = Inr (self, net)) \<and>
   (load_checkpoint self \<and> loaded = Some checkpoint \<and> checkpoint \<noteq> [] \<and>
    (''epoch'' \<notin> fst ` set checkpoint \<or> ''_keys'' \<notin> fst ` set checkpoint) \<longrightarrow>
      tc_on_train_begin self loaded load_params net = Inl ValueError) \<and>
   (load_checkpoint self \<and> loaded = Some checkpoint \<and> checkpoint \<noteq> [] \<and>
    map_of checkpoint ''epoch'' = Some epoch \<and>
    (map_of checkpoint ''_keys'' = Some (PyTuple ks) \<or>
     map_of checkpoint ''_keys'' = Some (PyList ks)) \<and>
    (\<forall>(k, v) \<in> set checkpoint. k \<noteq> ''epoch'' \<and> k \<noteq> ''_keys'' \<and> PyStr k \<in> set ks \<longrightarrow>
       buffer_takes k v) \<longrightarrow>
      (\<exists>params.
         list_all2 (\<lambda>(k, v) (k', f). k' = k \<and> wrapped_in_buffer k v f)
           [(k, v) \<leftarrow> checkpoint. k \<noteq> ''epoch'' \<and> k \<noteq> ''_keys'' \<and> PyStr k \<in> set ks] params \<and>
         (\<forall>e. load_params params net = Inl e \<longrightarrow>
            tc_on_train_begin self loaded load_params net = Inl e) \<and>
         (\<forall>net1. load_params params net = Inr net1 \<longrightarrow>
            tc_on_train_begin self loaded load_params net =
              Inr (self\<lparr>sunk := sunk self @
                          [(Checkpoint_found, verbose net),
                           (Loaded_checkpoint (map fst params) epoch, verbose net1)]\<rparr>,
                   net1)))) \<and>
   (load_checkpoint self \<and> loaded = Some checkpoint \<and> checkpoint \<noteq> [] \<and>
    ''epoch'' \<in> fst ` set checkpoint \<and> ''_keys'' \<in> fst ` set checkpoint \<and>
    tc_on_train_begin self loaded load_params net = Inl ValueError \<longrightarrow>
      (\<exists>params. load_params params net = Inl ValueError))"
proof (intro conjI impI)
  assume "\<not> load_checkpoint self \<or> loaded = None \<or> loaded = Some []"
  then show "tc_on_train_begin self loaded load_params net = Inr (self, net)"
    by (auto simp: tc_on_train_begin_def)
next
  assume a: "load_checkpoint self \<and> loaded = Some checkpoint \<and> checkpoint \<noteq> [] \<and>
    (''epoch'' \<notin> fst ` set checkpoint \<or> ''_keys'' \<notin> fst ` set checkpoint)"
  have del: "map_of (AList.delete ''epoch'' checkpoint) ''_keys'' = map_of checkpoint ''_keys''"
    by (simp add: AList.delete_conv')
  from a have "map_of checkpoint ''epoch'' = None \<or> map_of checkpoint ''_keys'' = None"
    by (auto simp: map_of_eq_None_iff)
  with a show "tc_on_train_begin self loaded load_params net = Inl ValueError"
    by (auto simp: tc_on_train_begin_def Let_def del split: option.splits)
next
  assume a: "load_checkpoint self \<and> loaded = Some checkpoint \<and> checkpoint \<noteq> [] \<and>
    map_of checkpoint ''epoch'' = Some epoch \<and>
    (map_of checkpoint ''_keys'' = Some (PyTuple ks) \<or>
     map_of checkpoint ''_keys'' = Some (PyList ks)) \<and>
    (\<forall>(k, v) \<in> set checkpoint. k \<noteq> ''epoch'' \<and> k \<noteq> ''_keys'' \<and> PyStr k \<in> set ks \<longrightarrow>
       buffer_takes k v)"
  define items where "items = AList.delete ''_keys'' (AList.delete ''epoch'' checkpoint)"
  have items: "items = [(k, v) \<leftarrow> checkpoint. k \<noteq> ''epoch'' \<and> k \<noteq> ''_keys'']"
    unfolding items_def AList.delete_eq by (induction checkpoint) auto
  have del: "map_of (AList.delete ''epoch'' checkpoint) ''_keys'' = map_of checkpoint ''_keys''"
    by (simp add: AList.delete_conv')
  obtain keys where keys: "map_of checkpoint ''_keys'' = Some keys"
    and shape: "keys = PyTuple ks \<or> keys = PyList ks"
    using a by blast
  have typed: "\<forall>(k, v) \<in> set items. PyStr k \<in> set ks \<longrightarrow> \<not> isl (tc_get_io k v)"
    using a unfolding items by (auto dest: tc_get_io_typed)
  from checkpoint_params_selected[OF shape typed] obtain params where
    params: "checkpoint_params keys items = Inr params"
    and all2: "list_all2 (\<lambda>(k, v) (k', f). k' = k \<and> tc_get_io k v = Inr f)
             [(k, v) \<leftarrow> items. PyStr k \<in> set ks] params"
    by blast
  have filt: "[(k, v) \<leftarrow> items. PyStr k \<in> set ks] =
              [(k, v) \<leftarrow> checkpoint. k \<noteq> ''epoch'' \<and> k \<noteq> ''_keys'' \<and> PyStr k \<in> set ks]"
    unfolding items by (induction checkpoint) auto
  have run: "tc_on_train_begin self loaded load_params net =
           and_then (load_params params net) (\<lambda>net1.
             Inr (tc_sink (Loaded_checkpoint (map fst params) epoch) (verbose net1)
                    (tc_sink Checkpoint_found (verbose net) self), net1))"
    using a keys params
    by (simp add: tc_on_train_begin_def Let_def del items_def[symmetric] and_then_def)
  have wrapped: "list_all2 (\<lambda>(k, v) (k', f). k' = k \<and> wrapped_in_buffer k v f)
           [(k, v) \<leftarrow> checkpoint. k \<noteq> ''epoch'' \<and> k \<noteq> ''_keys'' \<and> PyStr k \<in> set ks] params"
    using all2 unfolding filt
    by (rule list_all2_mono) (auto dest: tc_get_io_wraps)
  have raises: "\<forall>e. load_params params net = Inl e \<longrightarrow>
            tc_on_train_begin self loaded load_params net = Inl e"
    unfolding run by (simp add: and_then_def)
  have returns: "\<forall>net1. load_params params net = Inr net1 \<longrightarrow>
            tc_on_train_begin self loaded load_params net =
              Inr (self\<lparr>sunk := sunk self @
                          [(Checkpoint_found, verbose net),
                           (Loaded_checkpoint (map fst params) epoch, verbose net1)]\<rparr>,
                   net1)"
    unfolding run by (simp add: and_then_def tc_sink_def)
  show "\<exists>params.
         list_all2 (\<lambda>(k, v) (k', f). k' = k \<and> wrapped_in_buffer k v f)
           [(k, v) \<leftarrow> checkpoint. k \<noteq> ''epoch'' \<and> k \<noteq> ''_keys'' \<and> PyStr k \<in> set ks] params \<and>
         (\<forall>e. load_params params net = Inl e \<longrightarrow>
            tc_on_train_begin self loaded load_params net = Inl e) \<and>
         (\<forall>net1. load_params params net = Inr net1 \<longrightarrow>
            tc_on_train_begin self loaded load_params net =
              Inr (self\<lparr>sunk := sunk self @
                          [(Checkpoint_found, verbose net),
                           (Loaded_checkpoint (map fst params) epoch, verbose net1)]\<rparr>,
                   net1))"
    using wrapped raises returns by (intro exI[of _ params] conjI)
next
  assume a: "load_checkpoint self \<and> loaded = Some checkpoint \<and> checkpoint \<noteq> [] \<and>
    ''epoch'' \<in> fst ` set checkpoint \<and> ''_keys'' \<in> fst ` set checkpoint \<and>
    tc_on_train_begin self loaded load_params net = Inl ValueError"
  have del: "map_of (AList.delete ''epoch'' checkpoint) ''_keys'' = map_of checkpoint ''_keys''"
    by (simp add: AList.delete_conv')
  from a obtain epoch keys where e: "map_of checkpoint ''epoch'' = Some epoch"
    and k: "map_of checkpoint ''_keys'' = Some keys"
    by (metis map_of_eq_None_iff not_Some_eq)
  from a have lc: "load_checkpoint self" and ld: "loaded = Some checkpoint"
    and ne: "checkpoint \<noteq> []"
    and res: "tc_on_train_begin self loaded load_params net = Inl ValueError"
    by blast+
  let ?items = "AList.delete ''_keys'' (AList.delete ''epoch'' checkpoint)"
  have run: "tc_on_train_begin self loaded load_params net =
           and_then (checkpoint_params keys ?items) (\<lambda>params.
           and_then (load_params params net) (\<lambda>net1.
             Inr (tc_sink (Loaded_checkpoint (map fst params) epoch) (verbose net1)
                    (tc_sink Checkpoint_found (verbose net) self), net1)))"
    using lc ld ne e k by (simp add: tc_on_train_begin_def Let_def del)
  show "\<exists>params. load_params params net = Inl ValueError"
  proof (cases "checkpoint_params keys ?items")
    case (Inl err)
    then have "err = TypeError" by (rule checkpoint_params_raises)
    with res Inl show ?thesis
      unfolding run by (simp add: and_then_def)
  next
    case (Inr params)
    with res have "load_params params net = Inl ValueError"
      unfolding run by (cases "load_params params net") (simp_all add: and_then_def)
    then show ?thesis ..
  qed
qed


theorem on_train_begin_loads_selected_entries_witness:
  "tc_on_train_begin (example_callback\<lparr>load_checkpoint := False\<rparr>) (Some example_checkpoint)
     example_load_params \<lparr>history = [], verbose = 0\<rparr> =
     Inr (example_callback\<lparr>load_checkpoint := False\<rparr>, \<lparr>history = [], verbose = 0\<rparr>) \<and>
   tc_on_train_begin example_callback (Some [(''epoch'', PyInt 3), (''f_module'', PyBytes ''abc'')])
     example_load_params \<lparr>history = [], verbose = 0\<rparr> = Inl ValueError \<and>
   tc_on_train_begin example_callback (Some example_checkpoint)
     example_load_params \<lparr>history = [], verbose = 0\<rparr> =
     Inr (example_callback
            \<lparr>sunk := [(Checkpoint_found, 0),
                      (Loaded_checkpoint [''f_module'', ''f_history''] (PyInt 3), 1)]\<rparr>,
          \<lparr>history = [], verbose = 1\<rparr>)"
  using on_train_begin_loads_selected_entries
    [of "example_callback\<lparr>load_checkpoint := False\<rparr>" "Some example_checkpoint"
        example_load_params "\<lparr>history = [], verbose = 0\<rparr>"]
    on_train_begin_loads_selected_entries
    [of example_callback "Some [(''epoch'', PyInt 3), (''f_module'', PyBytes ''abc'')]"
        example_load_params "\<lparr>history = [], verbose = 0\<rparr>"
        "[(''epoch'', PyInt 3), (''f_module'', PyBytes ''abc'')]"]
    on_train_begin_loads_selected_entries
    [of example_callback "Some example_checkpoint"
        example_load_params "\<lparr>history = [], verbose = 0\<rparr>" example_checkpoint
        "PyInt 3" "[PyStr ''f_module'', PyStr ''f_history'']"]
  by (simp add: tc_on_train_begin_def example_callback_def example_checkpoint_def
      example_load_params_def tc_sink_def and_then_def tc_get_io_def Let_def AList.delete_eq)

text \<open>
  With \<^verbatim>\<open>epoch\<close> and \<^verbatim>\<open>_keys\<close> both present, the method neither raises \<^verbatim>\<open>ValueError\<close> nor
  calls \<^verbatim>\<open>net.load_params\<close> when \<^verbatim>\<open>_keys\<close> is \<^verbatim>\<open>None\<close>, or when a selected entry is a
  string where \<^verbatim>\<open>io.BytesIO\<close> takes bytes: it raises \<^verbatim>\<open>TypeError\<close>, here with a
  \<^verbatim>\<open>net.load_params\<close> that would return.  And it raises \<^verbatim>\<open>ValueError\<close> with both present
  when \<^verbatim>\<open>net.load_params\<close> raises it.
\<close>

theorem on_train_begin_type_error_counterexample:
  "tc_on_train_begin example_callback
     (Some [(''_keys'', PyNone), (''epoch'', PyInt 1), (''f_module'', PyBytes ''a'')])
     (\<lambda>params net. Inr net) \<lparr>history = [], verbose = 0\<rparr> = Inl TypeError \<and>
   tc_on_train_begin example_callback
     (Some [(''_keys'', PyTuple [PyStr ''f_module'']), (''epoch'', PyInt 1),
            (''f_module'', PyStr ''a'')])
     (\<lambda>params net. Inr net) \<lparr>history = [], verbose = 0\<rparr> = Inl TypeError \<and>
   tc_on_train_begin example_callback (Some example_checkpoint)
     (\<lambda>params net. Inl ValueError) \<lparr>history = [], verbose = 0\<rparr> = Inl ValueError"
  by (simp add: tc_on_train_begin_def example_callback_def example_checkpoint_def
      tc_sink_def and_then_def tc_get_io_def Let_def AList.delete_eq)


lemma tc_get_io_new:
  "tc_get_io f_key (PyNone :: 'f pyval) =
     Inr (if f_key = ''f_history'' then StringIO [] else BytesIO [])"
  by (simp add: tc_get_io_def)

lemma tc_save_params_cases:
  assumes "\<forall>e. save_params net f_name f = Inl e \<longrightarrow> is_Exception e"
  shows "\<exists>saved self1.
           tc_save_params save_params self f net f_name log_name = Inr (saved, self1) \<and>
           f_history self1 = f_history self \<and>
           set (sunk self) \<subseteq> set (sunk self1) \<and>
           (\<forall>e. save_params net f_name f = Inl e \<longrightarrow>
              saved = None \<and> (Unable_to_save log_name f e, verbose net) \<in> set (sunk self1)) \<and>
           (\<forall>written. save_params net f_name f = Inr written \<longrightarrow> saved = written)"
  using assms
  by (cases "save_params net f_name f") (auto simp: tc_save_params_def tc_sink_def)

lemma save_modules_run:
  fixes save_params :: "'f net \<Rightarrow> string \<Rightarrow> io_buf option \<Rightarrow> py_exception + io_buf option"
    and nm lg :: "string \<Rightarrow> string" and bf :: "string \<Rightarrow> io_buf option"
  assumes nm: "nm = (\<lambda>key. ''f_'' @ butlast key)"
    and bf: "bf = (\<lambda>key. Some (if ''f_'' @ key = ''f_history'' then StringIO [] else BytesIO []))"
    and lg: "lg = (\<lambda>key. butlast key @ '' state'')"
    and "\<forall>key \<in> set keys. \<forall>e. save_params net (nm key) (bf key) = Inl e \<longrightarrow> is_Exception e"
    and "keys = map fst [(key, val) \<leftarrow> items. val \<noteq> PyNone]"
    and "distinct (map nm keys)"
    and "\<forall>key \<in> set keys. nm key \<notin> fst ` set params"
    and "distinct (map fst params)"
  shows "\<exists>params1 self1.
           save_modules save_params net items params self = Inr (params1, self1) \<and>
           distinct (map fst params1) \<and>
           fst ` set params1 = fst ` set params \<union> nm ` set keys \<and>
           (\<forall>name \<in> fst ` set params. map_of params1 name = map_of params name) \<and>
           f_history self1 = f_history self \<and>
           set (sunk self) \<subseteq> set (sunk self1) \<and>
           (\<forall>key \<in> set keys.
              (\<forall>e. save_params net (nm key) (bf key) = Inl e \<longrightarrow>
                 map_of params1 (nm key) = Some None \<and>
                 (Unable_to_save (lg key) (bf key) e, verbose net) \<in> set (sunk self1)) \<and>
              (\<forall>written. save_params net (nm key) (bf key) = Inr written \<longrightarrow>
                 map_of params1 (nm key) = Some written))"
  using assms(4-)
proof (induction items arbitrary: keys params self)
  case Nil
  then show ?case by simp
next
  case (Cons p items)
  obtain key val where p: "p = (key, val)" by (cases p)
  show ?case
  proof (cases "val = PyNone")
    case True
    with Cons.prems(2) p have k: "keys = map fst [(key, val) \<leftarrow> items. val \<noteq> PyNone]"
      by simp
    have step: "save_modules save_params net (p # items) params self =
                save_modules save_params net items params self"
      using True p by simp
    from Cons.IH[OF Cons.prems(1) k Cons.prems(3,4,5), of self] show ?thesis
      unfolding step .
  next
    case False
    define keys' where "keys' = map fst [(key, val) \<leftarrow> items. val \<noteq> PyNone]"
    from Cons.prems(2) p False have keys: "keys = key # keys'"
      by (simp add: keys'_def)
    from Cons.prems(1) keys
    have exc: "\<forall>e. save_params net (nm key) (bf key) = Inl e \<longrightarrow> is_Exception e"
      and exc': "\<forall>key \<in> set keys'. \<forall>e. save_params net (nm key) (bf key) = Inl e \<longrightarrow> is_Exception e"
      by simp_all
    from tc_save_params_cases[where save_params = save_params and net = net and f_name = "nm key"
        and f = "bf key" and self = self and log_name = "lg key", OF exc] obtain saved self0 where
      sp: "tc_save_params save_params self (bf key) net (nm key) (lg key) = Inr (saved, self0)"
      and fh: "f_history self0 = f_history self"
      and sub: "set (sunk self) \<subseteq> set (sunk self0)"
      and failed: "\<forall>e. save_params net (nm key) (bf key) = Inl e \<longrightarrow>
              saved = None \<and> (Unable_to_save (lg key) (bf key) e, verbose net) \<in> set (sunk self0)"
      and ok: "\<forall>written. save_params net (nm key) (bf key) = Inr written \<longrightarrow> saved = written"
      by blast
    define params0 where "params0 = AList.update (nm key) saved params"
    have keys0: "fst ` set params0 = insert (nm key) (fst ` set params)"
      by (simp add: params0_def AList.dom_update)
    have look0: "map_of params0 = (map_of params)(nm key \<mapsto> saved)"
      by (simp add: params0_def AList.update_conv')
    from Cons.prems(3) keys have d': "distinct (map nm keys')" and fresh: "nm key \<notin> nm ` set keys'"
      by simp_all
    from Cons.prems(4) keys have new: "nm key \<notin> fst ` set params"
      and new': "\<forall>key \<in> set keys'. nm key \<notin> fst ` set params"
      by simp_all
    have a3: "\<forall>k \<in> set keys'. nm k \<notin> fst ` set params0"
      unfolding keys0
    proof
      fix k assume k: "k \<in> set keys'"
      then have "nm k \<in> nm ` set keys'" by (rule imageI)
      with fresh have "nm k \<noteq> nm key" by auto
      moreover from new' k have "nm k \<notin> fst ` set params" by (rule bspec)
      ultimately show "nm k \<notin> insert (nm key) (fst ` set params)" by simp
    qed
    have a4: "distinct (map fst params0)"
      unfolding params0_def using Cons.prems(5) by (rule AList.distinct_update)
    from Cons.IH[OF exc' keys'_def d' a3 a4, of self0] obtain params1 where
      "\<exists>self1. save_modules save_params net items params0 self0 = Inr (params1, self1) \<and>
           distinct (map fst params1) \<and>
           fst ` set params1 = fst ` set params0 \<union> nm ` set keys' \<and>
           (\<forall>name \<in> fst ` set params0. map_of params1 name = map_of params0 name) \<and>
           f_history self1 = f_history self0 \<and>
           set (sunk self0) \<subseteq> set (sunk self1) \<and>
           (\<forall>key \<in> set keys'.
              (\<forall>e. save_params net (nm key) (bf key) = Inl e \<longrightarrow>
                 map_of params1 (nm key) = Some None \<and>
                 (Unable_to_save (lg key) (bf key) e, verbose net) \<in> set (sunk self1)) \<and>
              (\<forall>written. save_params net (nm key) (bf key) = Inr written \<longrightarrow>
                 map_of params1 (nm key) = Some written))" ..
    then obtain self1 where ih:
      "save_modules save_params net items params0 self0 = Inr (params1, self1) \<and>
           distinct (map fst params1) \<and>
           fst ` set params1 = fst ` set params0 \<union> nm ` set keys' \<and>
           (\<forall>name \<in> fst ` set params0. map_of params1 name = map_of params0 name) \<and>
           f_history self1 = f_history self0 \<and>
           set (sunk self0) \<subseteq> set (sunk self1) \<and>
           (\<forall>key \<in> set keys'.
              (\<forall>e. save_params net (nm key) (bf key) = Inl e \<longrightarrow>
                 map_of params1 (nm key) = Some None \<and>
                 (Unable_to_save (lg key) (bf key) e, verbose net) \<in> set (sunk self1)) \<and>
              (\<forall>written. save_params net (nm key) (bf key) = Inr written \<longrightarrow>
                 map_of params1 (nm key) = Some written))" ..
    note run = ih[THEN conjunct1]
      and d1 = ih[THEN conjunct2, THEN conjunct1]
      and k1 = ih[THEN conjunct2, THEN conjunct2, THEN conjunct1]
      and keep = ih[THEN conjunct2, THEN conjunct2, THEN conjunct2, THEN conjunct1]
      and fh1 = ih[THEN conjunct2, THEN conjunct2, THEN conjunct2, THEN conjunct2, THEN conjunct1]
      and sub1 = ih[THEN conjunct2, THEN conjunct2, THEN conjunct2, THEN conjunct2, THEN conjunct2,
                    THEN conjunct1]
      and rest = ih[THEN conjunct2, THEN conjunct2, THEN conjunct2, THEN conjunct2, THEN conjunct2,
                    THEN conjunct2]
    have io: "tc_get_io (''f_'' @ key) (PyNone :: 'f pyval) =
                Inr (if ''f_'' @ key = ''f_history'' then StringIO [] else BytesIO [])"
      by (rule tc_get_io_new)
    have sp': "tc_save_params save_params self
                 (Some (if ''f_'' @ key = ''f_history'' then StringIO [] else BytesIO [])) net
                 (''f_'' @ butlast key) (butlast key @ '' state'') = Inr (saved, self0)"
      using sp unfolding nm bf lg .
    have run': "save_modules save_params net items
                  (AList.update (''f_'' @ butlast key) saved params) self0 = Inr (params1, self1)"
      using run unfolding params0_def nm .
    have whole: "save_modules save_params net (p # items) params self = Inr (params1, self1)"
      unfolding p using False io sp' run' by (simp add: and_then_def)
    have head: "map_of params1 (nm key) = Some saved"
    proof -
      have "nm key \<in> fst ` set params0" unfolding keys0 by simp
      with keep have "map_of params1 (nm key) = map_of params0 (nm key)" by (rule bspec)
      then show ?thesis by (simp add: look0)
    qed
    have old: "\<forall>name \<in> fst ` set params. map_of params1 name = map_of params name"
    proof
      fix name assume n: "name \<in> fst ` set params"
      with new have neq: "name \<noteq> nm key" by blast
      from n have "name \<in> fst ` set params0" unfolding keys0 by simp
      with keep have "map_of params1 name = map_of params0 name" by (rule bspec)
      with neq show "map_of params1 name = map_of params name" by (simp add: look0)
    qed
    have dom: "fst ` set params1 = fst ` set params \<union> nm ` set keys"
      unfolding k1 keys0 keys by auto
    have this_one: "(\<forall>e. save_params net (nm key) (bf key) = Inl e \<longrightarrow>
                 map_of params1 (nm key) = Some None \<and>
                 (Unable_to_save (lg key) (bf key) e, verbose net) \<in> set (sunk self1)) \<and>
              (\<forall>written. save_params net (nm key) (bf key) = Inr written \<longrightarrow>
                 map_of params1 (nm key) = Some written)"
    proof (intro conjI allI impI)
      fix e assume "save_params net (nm key) (bf key) = Inl e"
      with failed have "saved = None"
        and "(Unable_to_save (lg key) (bf key) e, verbose net) \<in> set (sunk self0)" by blast+
      with head sub1 show "map_of params1 (nm key) = Some None"
        and "(Unable_to_save (lg key) (bf key) e, verbose net) \<in> set (sunk self1)" by blast+
    next
      fix written assume "save_params net (nm key) (bf key) = Inr written"
      with ok head show "map_of params1 (nm key) = Some written" by simp
    qed
    have every: "\<forall>key \<in> set keys.
              (\<forall>e. save_params net (nm key) (bf key) = Inl e \<longrightarrow>
                 map_of params1 (nm key) = Some None \<and>
                 (Unable_to_save (lg key) (bf key) e, verbose net) \<in> set (sunk self1)) \<and>
              (\<forall>written. save_params net (nm key) (bf key) = Inr written \<longrightarrow>
                 map_of params1 (nm key) = Some written)"
    proof
      fix k assume "k \<in> set keys"
      then consider "k = key" | "k \<in> set keys'" unfolding keys by auto
      then show "(\<forall>e. save_params net (nm k) (bf k) = Inl e \<longrightarrow>
                 map_of params1 (nm k) = Some None \<and>
                 (Unable_to_save (lg k) (bf k) e, verbose net) \<in> set (sunk self1)) \<and>
              (\<forall>written. save_params net (nm k) (bf k) = Inr written \<longrightarrow>
                 map_of params1 (nm k) = Some written)"
      proof cases
        case 1
        show ?thesis unfolding 1 by (rule this_one)
      next
        case 2
        with rest show ?thesis by (rule bspec)
      qed
    qed
    have fhs: "f_history self1 = f_history self" using fh fh1 by simp
    have subs: "set (sunk self) \<subseteq> set (sunk self1)" using sub sub1 by blast
    show ?thesis
      using whole d1 dom old fhs subs every
      by (intro exI[of _ params1] exI[of _ self1] conjI)
  qed
qed


lemma checkpoint_kwargs_lookup:
  assumes "distinct (map fst params)" and "name \<noteq> ''_keys''" and "name \<noteq> ''epoch''"
  shows "map_of (checkpoint_kwargs params epoch) name =
           (case map_of params name of
              Some (Some f) \<Rightarrow> Some (getvalue f)
            | _ \<Rightarrow> None)"
proof -
  have "map_of (List.map_filter
                  (\<lambda>(k, v). case v of None \<Rightarrow> None | Some f \<Rightarrow> Some (k, getvalue f :: 'a pyval))
                  params) name =
        (case map_of params name of Some (Some f) \<Rightarrow> Some (getvalue f) | _ \<Rightarrow> None)"
    using assms(1)
  proof (induction params)
    case Nil
    then show ?case by (simp add: List.map_filter_simps)
  next
    case (Cons p params)
    obtain k v where p: "p = (k, v)" by (cases p)
    from Cons.prems p have notin: "k \<notin> fst ` set params" and d: "distinct (map fst params)"
      by simp_all
    from notin have none: "map_of params k = None" by (simp add: map_of_eq_None_iff)
    show ?case
    proof (cases "name = k")
      case True
      with none Cons.IH[OF d] p show ?thesis
        by (cases v) (simp_all add: List.map_filter_simps)
    next
      case False
      with Cons.IH[OF d] p show ?thesis
        by (cases v) (simp_all add: List.map_filter_simps)
    qed
  qed
  with assms(2,3) show ?thesis by (simp add: checkpoint_kwargs_def)
qed

lemma selected_components_shape:
  "selected_components kwargs_module kwargs_other self =
     map (\<lambda>key. (''f_'' @ butlast key,
                  Some (if ''f_'' @ key = ''f_history'' then StringIO [] else BytesIO []),
                  butlast key @ '' state''))
       (map fst [(key, val) \<leftarrow> kwargs_module. val \<noteq> PyNone]) @
     (if truthy (dict_get kwargs_other ''f_history'')
      then [(''f_history'', if f_history self = PyNone then None else Some (StringIO []),
             ''history'')]
      else [])"
  by (simp add: selected_components_def case_prod_unfold comp_def)

lemma f_history_property_eq:
  "f_history_property self =
     Inr (if f_history self = PyNone then None else Some (StringIO []))"
  by (simp add: f_history_property_def tc_get_io_def and_then_def)


text \<open>
  Claim C2, amended.  Take a call of \<^verbatim>\<open>save_model\<close> in which \<^verbatim>\<open>f_pickle\<close> is not selected,
  the last row of the history has an \<^verbatim>\<open>epoch\<close>, the selected components have distinct names,
  and every exception that \<^verbatim>\<open>net.save_params\<close> raises for a selected component derives from
  \<^verbatim>\<open>Exception\<close>.  Then \<^verbatim>\<open>save_model\<close> reaches \<^verbatim>\<open>train.save_checkpoint\<close>, and for every
  selected component: when \<^verbatim>\<open>net.save_params\<close> raises for it, \<^verbatim>\<open>_save_params\<close> has handed
  the message to \<^verbatim>\<open>self._sink\<close> and the keyword arguments of \<^verbatim>\<open>train.save_checkpoint\<close>
  have no entry under its name; when \<^verbatim>\<open>net.save_params\<close> returns, they hold the contents of
  its buffer under its name.
\<close>

theorem save_model_best_effort:
  fixes save_params :: "'f::zero net \<Rightarrow> string \<Rightarrow> io_buf option \<Rightarrow> py_exception + io_buf option"
  assumes ck: "checked = Inr (kwargs_module, kwargs_other)"
    and np: "\<not> truthy (dict_get kwargs_other ''f_pickle'')"
    and rows: "history net = rows @ [row]"
    and ep0: "map_of (cols row) ''epoch'' = Some epoch"
    and dist: "distinct (map fst (selected_components kwargs_module kwargs_other self))"
    and exc: "\<forall>(f_name, f, log_name) \<in> set (selected_components kwargs_module kwargs_other self).
                \<forall>e. save_params net f_name f = Inl e \<longrightarrow> is_Exception e"
  shows "\<exists>self1 ckpt.
           tc_save_model checked save_params self net = Inr (self1, ckpt) \<and>
           map_of ckpt ''epoch'' = Some epoch \<and>
           (\<forall>(f_name, f, log_name) \<in> set (selected_components kwargs_module kwargs_other self).
              (\<forall>e. save_params net f_name f = Inl e \<longrightarrow>
                 (Unable_to_save log_name f e, verbose net) \<in> set (sunk self1) \<and>
                 map_of ckpt f_name = None) \<and>
              (\<forall>written. save_params net f_name f = Inr written \<longrightarrow>
                 map_of ckpt f_name = map_option getvalue written))"
proof -
  have ep: "last_epoch net = Inr epoch"
    using rows ep0 by (simp add: last_epoch_def)
  define nm where "nm = (\<lambda>key :: string. ''f_'' @ butlast key)"
  define bf where
    "bf = (\<lambda>key. Some (if ''f_'' @ key = ''f_history'' then StringIO [] else BytesIO []))"
  define lg where "lg = (\<lambda>key :: string. butlast key @ '' state'')"
  define keys where "keys = map fst [(key, val) \<leftarrow> kwargs_module. val \<noteq> PyNone]"
  define fh where "fh = (if f_history self = PyNone then None else Some (StringIO []))"
  define hist where "hist = truthy (dict_get kwargs_other ''f_history'')"
  have sel: "selected_components kwargs_module kwargs_other self =
               map (\<lambda>key. (nm key, bf key, lg key)) keys @
               (if hist then [(''f_history'', fh, ''history'')] else [])"
    unfolding selected_components_shape nm_def bf_def lg_def keys_def fh_def hist_def ..
  have names: "map fst (selected_components kwargs_module kwargs_other self) =
               map nm keys @ (if hist then [''f_history''] else [])"
    unfolding sel by (simp add: comp_def)
  from dist have dm: "distinct (map nm keys)"
    and hfresh: "hist \<Longrightarrow> ''f_history'' \<notin> nm ` set keys"
    unfolding names by auto
  have excm: "\<forall>key \<in> set keys. \<forall>e. save_params net (nm key) (bf key) = Inl e \<longrightarrow> is_Exception e"
  proof
    fix key assume "key \<in> set keys"
    then have "(nm key, bf key, lg key) \<in> set (selected_components kwargs_module kwargs_other self)"
      unfolding sel by simp
    with exc show "\<forall>e. save_params net (nm key) (bf key) = Inl e \<longrightarrow> is_Exception e"
      by blast
  qed
  have exch: "hist \<Longrightarrow> \<forall>e. save_params net ''f_history'' fh = Inl e \<longrightarrow> is_Exception e"
  proof -
    assume hist
    then have "(''f_history'', fh, ''history'') \<in>
               set (selected_components kwargs_module kwargs_other self)"
      unfolding sel by simp
    with exc show ?thesis by blast
  qed
  have e1: "\<forall>key \<in> set keys. nm key \<notin> fst ` set ([] :: (string \<times> io_buf option) list)"
    by simp
  have e2: "distinct (map fst ([] :: (string \<times> io_buf option) list))" by simp
  from save_modules_run[where nm = nm and bf = bf and lg = lg and keys = keys
      and save_params = save_params and net = net and items = kwargs_module
      and params = "[]" and self = self, OF nm_def bf_def lg_def excm keys_def dm e1 e2]
  obtain params1 where
    "\<exists>self1. save_modules save_params net kwargs_module [] self = Inr (params1, self1) \<and>
           distinct (map fst params1) \<and>
           fst ` set params1 = fst ` set ([] :: (string \<times> io_buf option) list) \<union> nm ` set keys \<and>
           (\<forall>name \<in> fst ` set ([] :: (string \<times> io_buf option) list).
              map_of params1 name = map_of [] name) \<and>
           f_history self1 = f_history self \<and>
           set (sunk self) \<subseteq> set (sunk self1) \<and>
           (\<forall>key \<in> set keys.
              (\<forall>e. save_params net (nm key) (bf key) = Inl e \<longrightarrow>
                 map_of params1 (nm key) = Some None \<and>
                 (Unable_to_save (lg key) (bf key) e, verbose net) \<in> set (sunk self1)) \<and>
              (\<forall>written. save_params net (nm key) (bf key) = Inr written \<longrightarrow>
                 map_of params1 (nm key) = Some written))" ..
  then obtain self1 where loop:
    "save_modules save_params net kwargs_module [] self = Inr (params1, self1) \<and>
           distinct (map fst params1) \<and>
           fst ` set params1 = fst ` set ([] :: (string \<times> io_buf option) list) \<union> nm ` set keys \<and>
           (\<forall>name \<in> fst ` set ([] :: (string \<times> io_buf option) list).
              map_of params1 name = map_of [] name) \<and>
           f_history self1 = f_history self \<and>
           set (sunk self) \<subseteq> set (sunk self1) \<and>
           (\<forall>key \<in> set keys.
              (\<forall>e. save_params net (nm key) (bf key) = Inl e \<longrightarrow>
                 map_of params1 (nm key) = Some None \<and>
                 (Unable_to_save (lg key) (bf key) e, verbose net) \<in> set (sunk self1)) \<and>
              (\<forall>written. save_params net (nm key) (bf key) = Inr written \<longrightarrow>
                 map_of params1 (nm key) = Some written))" ..
  note run1 = loop[THEN conjunct1]
    and d1 = loop[THEN conjunct2, THEN conjunct1]
    and k1 = loop[THEN conjunct2, THEN conjunct2, THEN conjunct1]
    and fh1 = loop[THEN conjunct2, THEN conjunct2, THEN conjunct2, THEN conjunct2, THEN conjunct1]
    and mods = loop[THEN conjunct2, THEN conjunct2, THEN conjunct2, THEN conjunct2, THEN conjunct2,
                    THEN conjunct2]
  have dom1: "fst ` set params1 = nm ` set keys" using k1 by simp
  have prop1: "f_history_property self1 = Inr fh"
    unfolding f_history_property_eq fh1 fh_def ..
  \<comment> \<open>the history component\<close>
  have "\<exists>params2 self2.
          tc_save_model checked save_params self net =
            Inr (self2, checkpoint_kwargs params2 epoch) \<and>
          distinct (map fst params2) \<and>
          set (sunk self1) \<subseteq> set (sunk self2) \<and>
          (\<forall>key \<in> set keys. map_of params2 (nm key) = map_of params1 (nm key)) \<and>
          (hist \<longrightarrow>
            (\<forall>e. save_params net ''f_history'' fh = Inl e \<longrightarrow>
               map_of params2 ''f_history'' = Some None \<and>
               (Unable_to_save ''history'' fh e, verbose net) \<in> set (sunk self2)) \<and>
            (\<forall>written. save_params net ''f_history'' fh = Inr written \<longrightarrow>
               map_of params2 ''f_history'' = Some written))"
  proof (cases hist)
    case False
    have "tc_save_model checked save_params self net =
            Inr (self1, checkpoint_kwargs params1 epoch)"
      using False np ep run1 unfolding ck hist_def
      by (simp add: tc_save_model_def and_then_def)
    with d1 False show ?thesis
      by (intro exI[of _ params1] exI[of _ self1]) simp
  next
    case True
    from tc_save_params_cases[where save_params = save_params and net = net
        and f_name = "''f_history''" and f = fh and self = self1 and log_name = "''history''",
        OF exch[OF True]]
    obtain saved where
      "\<exists>self2. tc_save_params save_params self1 fh net ''f_history'' ''history'' = Inr (saved, self2) \<and>
           f_history self2 = f_history self1 \<and>
           set (sunk self1) \<subseteq> set (sunk self2) \<and>
           (\<forall>e. save_params net ''f_history'' fh = Inl e \<longrightarrow>
              saved = None \<and> (Unable_to_save ''history'' fh e, verbose net) \<in> set (sunk self2)) \<and>
           (\<forall>written. save_params net ''f_history'' fh = Inr written \<longrightarrow> saved = written)" ..
    then obtain self2 where h:
      "tc_save_params save_params self1 fh net ''f_history'' ''history'' = Inr (saved, self2) \<and>
           f_history self2 = f_history self1 \<and>
           set (sunk self1) \<subseteq> set (sunk self2) \<and>
           (\<forall>e. save_params net ''f_history'' fh = Inl e \<longrightarrow>
              saved = None \<and> (Unable_to_save ''history'' fh e, verbose net) \<in> set (sunk self2)) \<and>
           (\<forall>written. save_params net ''f_history'' fh = Inr written \<longrightarrow> saved = written)" ..
    note sp = h[THEN conjunct1]
      and sub2 = h[THEN conjunct2, THEN conjunct2, THEN conjunct1]
      and failed = h[THEN conjunct2, THEN conjunct2, THEN conjunct2, THEN conjunct1]
      and ok = h[THEN conjunct2, THEN conjunct2, THEN conjunct2, THEN conjunct2]
    define params2 where "params2 = AList.update ''f_history'' saved params1"
    have look2: "map_of params2 = (map_of params1)(''f_history'' \<mapsto> saved)"
      by (simp add: params2_def AList.update_conv')
    have d2: "distinct (map fst params2)"
      unfolding params2_def using d1 by (rule AList.distinct_update)
    have run: "tc_save_model checked save_params self net =
            Inr (self2, checkpoint_kwargs params2 epoch)"
      using True np ep run1 prop1 sp unfolding ck hist_def params2_def
      by (simp add: tc_save_model_def and_then_def)
    have same: "\<forall>key \<in> set keys. map_of params2 (nm key) = map_of params1 (nm key)"
    proof
      fix key assume "key \<in> set keys"
      then have "nm key \<in> nm ` set keys" by (rule imageI)
      with hfresh[OF True] have "nm key \<noteq> ''f_history''" by metis
      then show "map_of params2 (nm key) = map_of params1 (nm key)" by (simp add: look2)
    qed
    have hres: "(\<forall>e. save_params net ''f_history'' fh = Inl e \<longrightarrow>
               map_of params2 ''f_history'' = Some None \<and>
               (Unable_to_save ''history'' fh e, verbose net) \<in> set (sunk self2)) \<and>
            (\<forall>written. save_params net ''f_history'' fh = Inr written \<longrightarrow>
               map_of params2 ''f_history'' = Some written)"
      using failed ok by (simp add: look2)
    show ?thesis
      using run d2 sub2 same hres
      by (intro exI[of _ params2] exI[of _ self2]) simp
  qed
  then obtain params2 where
    "\<exists>self2. tc_save_model checked save_params self net =
            Inr (self2, checkpoint_kwargs params2 epoch) \<and>
          distinct (map fst params2) \<and>
          set (sunk self1) \<subseteq> set (sunk self2) \<and>
          (\<forall>key \<in> set keys. map_of params2 (nm key) = map_of params1 (nm key)) \<and>
          (hist \<longrightarrow>
            (\<forall>e. save_params net ''f_history'' fh = Inl e \<longrightarrow>
               map_of params2 ''f_history'' = Some None \<and>
               (Unable_to_save ''history'' fh e, verbose net) \<in> set (sunk self2)) \<and>
            (\<forall>written. save_params net ''f_history'' fh = Inr written \<longrightarrow>
               map_of params2 ''f_history'' = Some written))" ..
  then obtain self2 where fin:
    "tc_save_model checked save_params self net =
            Inr (self2, checkpoint_kwargs params2 epoch) \<and>
          distinct (map fst params2) \<and>
          set (sunk self1) \<subseteq> set (sunk self2) \<and>
          (\<forall>key \<in> set keys. map_of params2 (nm key) = map_of params1 (nm key)) \<and>
          (hist \<longrightarrow>
            (\<forall>e. save_params net ''f_history'' fh = Inl e \<longrightarrow>
               map_of params2 ''f_history'' = Some None \<and>
               (Unable_to_save ''history'' fh e, verbose net) \<in> set (sunk self2)) \<and>
            (\<forall>written. save_params net ''f_history'' fh = Inr written \<longrightarrow>
               map_of params2 ''f_history'' = Some written))" ..
  note run = fin[THEN conjunct1]
    and d2 = fin[THEN conjunct2, THEN conjunct1]
    and sub2 = fin[THEN conjunct2, THEN conjunct2, THEN conjunct1]
    and same = fin[THEN conjunct2, THEN conjunct2, THEN conjunct2, THEN conjunct1]
    and hres = fin[THEN conjunct2, THEN conjunct2, THEN conjunct2, THEN conjunct2]
  let ?ckpt = "checkpoint_kwargs params2 epoch :: 'f pydict"
  have look: "map_of ?ckpt name =
                (case map_of params2 name of Some (Some f) \<Rightarrow> Some (getvalue f) | _ \<Rightarrow> None)"
    if "name \<noteq> ''_keys''" and "name \<noteq> ''epoch''" for name
    using d2 that by (rule checkpoint_kwargs_lookup)
  have entry: "(\<forall>e. save_params net f_name f = Inl e \<longrightarrow>
                 (Unable_to_save log_name f e, verbose net) \<in> set (sunk self2) \<and>
                 map_of ?ckpt f_name = None) \<and>
              (\<forall>written. save_params net f_name f = Inr written \<longrightarrow>
                 map_of ?ckpt f_name = map_option getvalue written)"
    if mem: "(f_name, f, log_name) \<in> set (selected_components kwargs_module kwargs_other self)"
    for f_name f log_name
  proof -
    from mem consider key where "key \<in> set keys" "f_name = nm key" "f = bf key" "log_name = lg key"
      | "hist" "f_name = ''f_history''" "f = fh" "log_name = ''history''"
      unfolding sel by (auto split: if_splits)
    then show ?thesis
    proof cases
      case 1
      have n: "nm key \<noteq> ''_keys''" "nm key \<noteq> ''epoch''" by (simp_all add: nm_def)
      from mods 1(1) have m:
        "(\<forall>e. save_params net (nm key) (bf key) = Inl e \<longrightarrow>
                 map_of params1 (nm key) = Some None \<and>
                 (Unable_to_save (lg key) (bf key) e, verbose net) \<in> set (sunk self1)) \<and>
              (\<forall>written. save_params net (nm key) (bf key) = Inr written \<longrightarrow>
                 map_of params1 (nm key) = Some written)"
        by (rule bspec)
      from same 1(1) have s: "map_of params2 (nm key) = map_of params1 (nm key)" by (rule bspec)
      show ?thesis
        unfolding 1(2,3,4)
      proof (intro conjI allI impI)
        fix e assume "save_params net (nm key) (bf key) = Inl e"
        with m have a: "map_of params1 (nm key) = Some None"
          and b: "(Unable_to_save (lg key) (bf key) e, verbose net) \<in> set (sunk self1)"
          by blast+
        from b sub2 show "(Unable_to_save (lg key) (bf key) e, verbose net) \<in> set (sunk self2)"
          by blast
        from a s show "map_of ?ckpt (nm key) = None" by (simp add: look[OF n])
      next
        fix written assume "save_params net (nm key) (bf key) = Inr written"
        with m have "map_of params1 (nm key) = Some written" by blast
        with s show "map_of ?ckpt (nm key) = map_option getvalue written"
          by (cases written) (simp_all add: look[OF n])
      qed
    next
      case 2
      have n: "''f_history'' \<noteq> ''_keys''" "''f_history'' \<noteq> ''epoch''" by simp_all
      from hres 2(1) have m:
        "(\<forall>e. save_params net ''f_history'' fh = Inl e \<longrightarrow>
               map_of params2 ''f_history'' = Some None \<and>
               (Unable_to_save ''history'' fh e, verbose net) \<in> set (sunk self2)) \<and>
            (\<forall>written. save_params net ''f_history'' fh = Inr written \<longrightarrow>
               map_of params2 ''f_history'' = Some written)"
        by (rule mp)
      show ?thesis
        unfolding 2(2,3,4)
      proof (intro conjI allI impI)
        fix e assume "save_params net ''f_history'' fh = Inl e"
        with m have a: "map_of params2 ''f_history'' = Some None"
          and b: "(Unable_to_save ''history'' fh e, verbose net) \<in> set (sunk self2)"
          by blast+
        from b show "(Unable_to_save ''history'' fh e, verbose net) \<in> set (sunk self2)" .
        from a show "map_of ?ckpt ''f_history'' = None" by (simp add: look[OF n])
      next
        fix written assume "save_params net ''f_history'' fh = Inr written"
        with m have "map_of params2 ''f_history'' = Some written" by blast
        then show "map_of ?ckpt ''f_history'' = map_option getvalue written"
          by (cases written) (simp_all add: look[OF n])
      qed
    qed
  qed
  have epoch: "map_of ?ckpt ''epoch'' = Some epoch"
    by (simp add: checkpoint_kwargs_def)
  have all: "\<forall>(f_name, f, log_name) \<in> set (selected_components kwargs_module kwargs_other self).
              (\<forall>e. save_params net f_name f = Inl e \<longrightarrow>
                 (Unable_to_save log_name f e, verbose net) \<in> set (sunk self2) \<and>
                 map_of ?ckpt f_name = None) \<and>
              (\<forall>written. save_params net f_name f = Inr written \<longrightarrow>
                 map_of ?ckpt f_name = map_option getvalue written)"
  proof (intro ballI)
    fix x assume x: "x \<in> set (selected_components kwargs_module kwargs_other self)"
    obtain f_name f log_name where t: "x = (f_name, f, log_name)" by (cases x)
    from entry[of f_name f log_name] x show "case x of (f_name, f, log_name) \<Rightarrow>
              (\<forall>e. save_params net f_name f = Inl e \<longrightarrow>
                 (Unable_to_save log_name f e, verbose net) \<in> set (sunk self2) \<and>
                 map_of ?ckpt f_name = None) \<and>
              (\<forall>written. save_params net f_name f = Inr written \<longrightarrow>
                 map_of ?ckpt f_name = map_option getvalue written)"
      unfolding t by simp
  qed
  show ?thesis
    using run epoch all by (intro exI[of _ self2] exI[of _ ?ckpt] conjI)
qed


text \<open>
  At a net whose optimizer cannot be saved, with the default arguments of the callback: four
  components are selected, the failure of the optimizer is logged and the other three
  components are handed over.
\<close>

theorem save_model_best_effort_witness:
  "selected_components
     [(''criterion_'', PyBool True), (''optimizer_'', PyBool True), (''module_'', PyBool True)]
     [(''f_history'', PyBool True), (''f_pickle'', PyBool False)] example_callback =
     [(''f_criterion'', Some (BytesIO []), ''criterion state''),
      (''f_optimizer'', Some (BytesIO []), ''optimizer state''),
      (''f_module'', Some (BytesIO []), ''module state''),
      (''f_history'', Some (StringIO []), ''history'')] \<and>
   tc_save_model (example_checked False) (example_save_params OSError) example_callback
     example_net =
   Inr (example_callback
          \<lparr>sunk := [(Unable_to_save ''optimizer state'' (Some (BytesIO [])) OSError, 0)]\<rparr>,
        [(''_keys'', PyTuple [PyStr ''f_criterion'', PyStr ''f_optimizer'', PyStr ''f_module'',
                              PyStr ''f_history'']),
         (''epoch'', PyInt 2),
         (''f_criterion'', PyBytes ''f_criterion''),
         (''f_module'', PyBytes ''f_module''),
         (''f_history'', PyStr ''[{}]'')])"
proof -
  let ?km = "[(''criterion_'', PyBool True), (''optimizer_'', PyBool True),
              (''module_'', PyBool True)] :: int pydict"
  let ?ko = "[(''f_history'', PyBool True), (''f_pickle'', PyBool False)] :: int pydict"
  have sel: "selected_components ?km ?ko example_callback =
               [(''f_criterion'', Some (BytesIO []), ''criterion state''),
                (''f_optimizer'', Some (BytesIO []), ''optimizer state''),
                (''f_module'', Some (BytesIO []), ''module state''),
                (''f_history'', Some (StringIO []), ''history'')]"
    by (simp add: selected_components_def dict_get_def example_callback_def)
  have h1: "example_checked False = Inr (?km, ?ko)"
    by (simp add: example_checked_def)
  have h2: "\<not> truthy (dict_get ?ko ''f_pickle'')"
    by (simp add: dict_get_def)
  have h3: "history example_net =
              [\<lparr>cols = [(''epoch'', PyInt 1)], batches = []\<rparr>] @
              [\<lparr>cols = [(''epoch'', PyInt 2)], batches = [] :: int pydict list\<rparr>]"
    by (simp add: example_net_def)
  have h3': "map_of (cols \<lparr>cols = [(''epoch'', PyInt 2 :: int pyval)],
                             batches = [] :: int pydict list\<rparr>) ''epoch'' = Some (PyInt 2)"
    by simp
  have h4: "distinct (map fst (selected_components ?km ?ko example_callback))"
    unfolding sel by simp
  have h5: "\<forall>(f_name, f, log_name) \<in> set (selected_components ?km ?ko example_callback).
              \<forall>e. example_save_params OSError example_net f_name f = Inl e \<longrightarrow> is_Exception e"
    unfolding sel by (simp add: example_save_params_def)
  from save_model_best_effort[where save_params = "example_save_params OSError"
      and net = example_net and self = example_callback, OF h1 h2 h3 h3' h4 h5]
  obtain self1 ckpt where
    "tc_save_model (example_checked False) (example_save_params OSError) example_callback
       example_net = Inr (self1, ckpt)"
    by blast
  moreover have
    "tc_save_model (example_checked False) (example_save_params OSError) example_callback
       example_net =
     Inr (example_callback
          \<lparr>sunk := [(Unable_to_save ''optimizer state'' (Some (BytesIO [])) OSError, 0)]\<rparr>,
        [(''_keys'', PyTuple [PyStr ''f_criterion'', PyStr ''f_optimizer'', PyStr ''f_module'',
                              PyStr ''f_history'']),
         (''epoch'', PyInt 2),
         (''f_criterion'', PyBytes ''f_criterion''),
         (''f_module'', PyBytes ''f_module''),
         (''f_history'', PyStr ''[{}]'')])"
    by (simp add: tc_save_model_def example_checked_def example_save_params_def
        example_callback_def example_net_def and_then_def tc_get_io_def tc_save_params_def
        tc_sink_def dict_get_def f_history_property_def last_epoch_def checkpoint_kwargs_def
        List.map_filter_simps)
  ultimately show ?thesis using sel by simp
qed

text \<open>
  \<^verbatim>\<open>except Exception\<close> does not catch a \<^verbatim>\<open>KeyboardInterrupt\<close>: raised by
  \<^verbatim>\<open>net.save_params\<close> for the optimizer, it leaves \<^verbatim>\<open>save_model\<close>, and nothing is saved.
\<close>

theorem save_model_base_exception_counterexample:
  "example_save_params KeyboardInterrupt example_net ''f_optimizer'' (Some (BytesIO [])) =
     Inl KeyboardInterrupt \<and>
   tc_save_model (example_checked False) (example_save_params KeyboardInterrupt)
     example_callback example_net = Inl KeyboardInterrupt"
  by (simp add: tc_save_model_def example_checked_def example_save_params_def
      example_callback_def example_net_def and_then_def tc_get_io_def tc_save_params_def)

text \<open>
  Claim C3 at a callback with \<^verbatim>\<open>f_pickle\<close> selected.  \<^verbatim>\<open>save_model\<close> gets a
  \<^verbatim>\<open>BytesIO\<close> from \<^verbatim>\<open>_get_io("f_pickle")\<close> and gives it to \<^verbatim>\<open>open\<close>, which raises: whatever
  the net and the other components, the call ends in an exception and
  \<^verbatim>\<open>train.save_checkpoint\<close> is not reached.
\<close>

theorem save_model_f_pickle_raises:
  assumes "checked = Inr (kwargs_module, kwargs_other)"
    and "truthy (dict_get kwargs_other ''f_pickle'')"
  shows "isl (tc_save_model checked save_params self net)"
  using assms
  by (auto simp: tc_save_model_def and_then_def py_open_def tc_get_io_def
           split: sum.splits prod.splits if_splits)

text \<open>With every component saved without an exception, the exception is the \<^verbatim>\<open>TypeError\<close> of \<^verbatim>\<open>open\<close>.\<close>

theorem save_model_f_pickle_raises_witness:
  "tc_save_model (example_checked True) (\<lambda>net f_name f. Inr f) example_callback example_net =
     Inl TypeError"
proof -
  have h1: "example_checked True =
              Inr ([(''criterion_'', PyBool True), (''optimizer_'', PyBool True),
                    (''module_'', PyBool True)],
                   [(''f_history'', PyBool True), (''f_pickle'', PyBool True)])"
    by (simp add: example_checked_def)
  have h2: "truthy (dict_get [(''f_history'', PyBool True), (''f_pickle'', PyBool (True))
                              :: (string \<times> int pyval)] ''f_pickle'')"
    by (simp add: dict_get_def)
  from save_model_f_pickle_raises[OF h1 h2, of "\<lambda>net f_name f. Inr f" example_callback example_net]
  show ?thesis
    by (simp add: tc_save_model_def example_checked_def
        example_callback_def example_net_def and_then_def tc_get_io_def tc_save_params_def
        dict_get_def f_history_property_def py_open_def)
qed

end
